theory Spec2Isabelle
  imports Main
begin

section \<open>Cluster objects\<close>

text \<open>
  The objects the two controllers read and write, with the Go field names.
  Only the fields the code touches are kept.  A Go \<open>runtime.Object\<close> is an
  interface value; here it is the sum type \<open>object\<close>.
\<close>

record ObjectMeta =
  Name :: string
  Namespace :: string
  ResourceVersion :: string

record NamespacedName =
  nnNamespace :: string
  nnName :: string

record OperatorGroupSpec =
  TargetNamespaces :: "string list"

record SubscriptionSpec =
  Channel :: string
  CatalogSource :: string
  CatalogSourceNamespace :: string
  Package :: string

record ClusterServiceVersionStatus =
  Phase :: string
  Reason :: string

record RouteSpec =
  Host :: string

record Link =
  Text :: string
  Href :: string

record ApplicationMenuSpec =
  Section :: string
  ImageURL :: string

record ConsoleLinkSpec =
  Link :: Link
  Location :: string
  ApplicationMenu :: "ApplicationMenuSpec option"

datatype kind =
    KNamespace | KOperatorGroup | KSubscription | KClusterServiceVersion
  | KArgoCD | KRoute | KConsoleLink

datatype object =
    NamespaceObj ObjectMeta
  | OperatorGroupObj ObjectMeta OperatorGroupSpec
  | SubscriptionObj ObjectMeta SubscriptionSpec
  | ClusterServiceVersionObj ObjectMeta ClusterServiceVersionStatus
  | ArgoCDObj ObjectMeta
  | RouteObj ObjectMeta RouteSpec
  | ConsoleLinkObj ObjectMeta ConsoleLinkSpec

fun kindOf :: "object \<Rightarrow> kind" where
  "kindOf (NamespaceObj m) = KNamespace"
| "kindOf (OperatorGroupObj m s) = KOperatorGroup"
| "kindOf (SubscriptionObj m s) = KSubscription"
| "kindOf (ClusterServiceVersionObj m s) = KClusterServiceVersion"
| "kindOf (ArgoCDObj m) = KArgoCD"
| "kindOf (RouteObj m s) = KRoute"
| "kindOf (ConsoleLinkObj m s) = KConsoleLink"

fun objectMeta :: "object \<Rightarrow> ObjectMeta" where
  "objectMeta (NamespaceObj m) = m"
| "objectMeta (OperatorGroupObj m s) = m"
| "objectMeta (SubscriptionObj m s) = m"
| "objectMeta (ClusterServiceVersionObj m s) = m"
| "objectMeta (ArgoCDObj m) = m"
| "objectMeta (RouteObj m s) = m"
| "objectMeta (ConsoleLinkObj m s) = m"

definition emptyMeta :: ObjectMeta where
  "emptyMeta = \<lparr>Name = [], Namespace = [], ResourceVersion = []\<rparr>"

text \<open>The zero values \<open>&v1alpha1.ClusterServiceVersion{}\<close>, \<open>&argoprojv1alpha1.ArgoCD{}\<close>,
  \<open>&routev1.Route{}\<close> and \<open>&console.ConsoleLink{}\<close> that the code hands to \<open>Get\<close>.\<close>

definition emptyClusterServiceVersion :: object where
  "emptyClusterServiceVersion = ClusterServiceVersionObj emptyMeta \<lparr>Phase = [], Reason = []\<rparr>"

definition emptyArgoCD :: object where
  "emptyArgoCD = ArgoCDObj emptyMeta"

definition emptyRoute :: object where
  "emptyRoute = RouteObj emptyMeta \<lparr>Host = []\<rparr>"

definition emptyConsoleLink :: object where
  "emptyConsoleLink =
     ConsoleLinkObj emptyMeta
       \<lparr>Link = \<lparr>Text = [], Href = []\<rparr>, Location = [], ApplicationMenu = None\<rparr>"

text \<open>Typed field reads \<open>csv.Status\<close> and \<open>argoCDRoute.Spec\<close>.  The variables are
  statically typed in Go; the last equation is never reached from the code below,
  because \<open>clientGet\<close> keeps the kind of the object it is given.\<close>

fun csvStatus :: "object \<Rightarrow> ClusterServiceVersionStatus" where
  "csvStatus (ClusterServiceVersionObj m s) = s"
| "csvStatus other = \<lparr>Phase = [], Reason = []\<rparr>"

fun routeSpec :: "object \<Rightarrow> RouteSpec" where
  "routeSpec (RouteObj m s) = s"
| "routeSpec other = \<lparr>Host = []\<rparr>"

section \<open>Errors\<close>

text \<open>
  A Go \<open>error\<close> is \<open>error option\<close>, \<open>None\<close> being \<open>nil\<close>.  API errors carry the
  status reason that \<open>errors.IsNotFound\<close> and \<open>errors.IsAlreadyExists\<close> test.
\<close>

datatype StatusReason =
  StatusReasonNotFound | StatusReasonAlreadyExists | StatusReasonOther string

datatype error =
    StatusError StatusReason string
  | Errorf string
  | ErrWaitTimeout
  | Panic string

fun IsNotFound :: "error option \<Rightarrow> bool" where
  "IsNotFound (Some (StatusError r msg)) = (r = StatusReasonNotFound)"
| "IsNotFound other = False"

fun IsAlreadyExists :: "error option \<Rightarrow> bool" where
  "IsAlreadyExists (Some (StatusError r msg)) = (r = StatusReasonAlreadyExists)"
| "IsAlreadyExists other = False"

section \<open>The cluster API client\<close>

text \<open>
  The cluster API is an external collaborator.  It is a record of three operations
  over a cluster state of any type \<open>'w\<close>; nothing is assumed about them, so a read may
  fail, change what later reads see, or disagree with a later create.

  What the program does to the collaborator is recorded: the \<open>world\<close> holds the
  cluster state, a logical clock, and the list of calls made so far, each with the
  time of the call and the error it returned.
\<close>

record 'w Client =
  Get :: "kind \<Rightarrow> NamespacedName \<Rightarrow> 'w \<Rightarrow> (error + object) \<times> 'w"
  Create :: "object \<Rightarrow> 'w \<Rightarrow> error option \<times> 'w"
  Delete :: "object \<Rightarrow> 'w \<Rightarrow> error option \<times> 'w"

datatype call =
    GetCall kind NamespacedName
  | CreateCall object
  | DeleteCall object

type_synonym entry = "nat \<times> call \<times> error option"

record 'w world =
  cluster :: 'w
  clock :: nat
  calls :: "entry list"

fun isWrite :: "call \<Rightarrow> bool" where
  "isWrite (GetCall k key) = False"
| "isWrite (CreateCall obj) = True"
| "isWrite (DeleteCall obj) = True"

definition writes :: "'w world \<Rightarrow> entry list" where
  "writes w = filter (\<lambda>e. isWrite (fst (snd e))) (calls w)"

definition logCall :: "call \<Rightarrow> error option \<Rightarrow> 'w \<Rightarrow> 'w world \<Rightarrow> 'w world" where
  "logCall c err s w = w\<lparr>cluster := s, calls := calls w @ [(clock w, c, err)]\<rparr>"

definition kindMismatch :: error where
  "kindMismatch = Errorf ''object kind does not match the requested type''"

text \<open>\<open>client.Get(ctx, key, obj)\<close>: the kind asked for is the type of \<open>obj\<close>; on success
  \<open>obj\<close> is overwritten, on an error it is left as it was.  A reply of another kind
  cannot be decoded into \<open>obj\<close> and is an error.\<close>

definition clientGet ::
  "'w Client \<Rightarrow> NamespacedName \<Rightarrow> object \<Rightarrow> 'w world \<Rightarrow> (error option \<times> object) \<times> 'w world" where
  "clientGet c key obj w =
     (case Get c (kindOf obj) key (cluster w) of
        (Inl e, s) \<Rightarrow> ((Some e, obj), logCall (GetCall (kindOf obj) key) (Some e) s w)
      | (Inr found, s) \<Rightarrow>
          if kindOf found = kindOf obj
          then ((None, found), logCall (GetCall (kindOf obj) key) None s w)
          else ((Some kindMismatch, obj),
                logCall (GetCall (kindOf obj) key) (Some kindMismatch) s w))"

definition clientCreate :: "'w Client \<Rightarrow> object \<Rightarrow> 'w world \<Rightarrow> error option \<times> 'w world" where
  "clientCreate c obj w =
     (case Create c obj (cluster w) of (err, s) \<Rightarrow> (err, logCall (CreateCall obj) err s w))"

definition clientDelete :: "'w Client \<Rightarrow> object \<Rightarrow> 'w world \<Rightarrow> error option \<times> 'w world" where
  "clientDelete c obj w =
     (case Delete c obj (cluster w) of (err, s) \<Rightarrow> (err, logCall (DeleteCall obj) err s w))"

section \<open>Polling (\<open>k8s.io/apimachinery/pkg/util/wait\<close>)\<close>

text \<open>
  \<open>time.Duration\<close> counts nanoseconds.  Time is the logical clock of the world: a
  call to the cluster takes no time, and only waiting for the next tick or for the
  deadline moves the clock.
\<close>

type_synonym Duration = nat

definition Second :: Duration where
  "Second = 1000000000"

definition Minute :: Duration where
  "Minute = 60 * Second"

definition sleep :: "Duration \<Rightarrow> 'w world \<Rightarrow> 'w world" where
  "sleep d w = w\<lparr>clock := clock w + d\<rparr>"

type_synonym 'w ConditionFunc = "'w world \<Rightarrow> (bool \<times> error option) \<times> 'w world"

text \<open>
  \<open>wait.WaitFor\<close> driven by \<open>wait.poller interval timeout\<close>, after \<open>elapsed\<close> time: the
  condition runs once for every tick that comes before the deadline and once more
  when the deadline closes the channel; if it is still false then, the result is
  \<open>ErrWaitTimeout\<close>.  An error of the condition is tested before its boolean.  A
  timeout of 0 means no deadline, so the loop need not end: the result is an
  option, \<open>None\<close> for a run that never returns.  \<open>time.NewTicker\<close> panics on an
  interval of 0.
\<close>

partial_function (option) WaitFor ::
  "Duration \<Rightarrow> Duration \<Rightarrow> 'w ConditionFunc \<Rightarrow> Duration \<Rightarrow> 'w world
     \<Rightarrow> (error option \<times> 'w world) option" where
  "WaitFor interval timeout fn elapsed w =
     (if interval = 0 then Some (Some (Panic ''non-positive interval for NewTicker''), w)
      else if timeout \<noteq> 0 \<and> timeout \<le> elapsed + interval then
        (case fn (sleep (timeout - elapsed) w) of
           ((ok, err), w1) \<Rightarrow>
             if err \<noteq> None then Some (err, w1)
             else if ok then Some (None, w1)
             else Some (Some ErrWaitTimeout, w1))
      else
        (case fn (sleep interval w) of
           ((ok, err), w1) \<Rightarrow>
             if err \<noteq> None then Some (err, w1)
             else if ok then Some (None, w1)
             else WaitFor interval timeout fn (elapsed + interval) w1))"

text \<open>\<open>wait.PollImmediate\<close>: the condition is checked once before any waiting.\<close>

definition PollImmediate ::
  "Duration \<Rightarrow> Duration \<Rightarrow> 'w ConditionFunc \<Rightarrow> 'w world \<Rightarrow> (error option \<times> 'w world) option" where
  "PollImmediate interval timeout condition w =
     (case condition w of
        ((done, err), w1) \<Rightarrow>
          if err \<noteq> None then Some (err, w1)
          else if done then Some (None, w1)
          else WaitFor interval timeout condition 0 w1)"

text \<open>When the timeout is \<open>n\<close> intervals, \<open>PollImmediate\<close> is \<open>n + 1\<close> evaluations of the
  condition, an interval apart, stopping at the first that is true or fails
  (lemma \<open>PollImmediate_pollAttempts\<close> below).\<close>

fun pollAttempts ::
  "'w ConditionFunc \<Rightarrow> Duration \<Rightarrow> nat \<Rightarrow> 'w world \<Rightarrow> error option \<times> 'w world" where
  "pollAttempts fn interval 0 w =
     (case fn w of
        ((ok, err), w1) \<Rightarrow>
          if err \<noteq> None then (err, w1)
          else if ok then (None, w1)
          else (Some ErrWaitTimeout, w1))"
| "pollAttempts fn interval (Suc n) w =
     (case fn w of
        ((ok, err), w1) \<Rightarrow>
          if err \<noteq> None then (err, w1)
          else if ok then (None, w1)
          else pollAttempts fn interval n (sleep interval w1))"

section \<open>Dependency installer (\<open>dependency.go\<close>, \<open>operator.go\<close>)\<close>

record operatorResource =
  namespace :: string
  subscription :: string
  operatorGroup :: string
  csv :: string

record 'w Dependency =
  d_client :: "'w Client"
  d_prefix :: string
  d_isReady :: "'w ConditionFunc option"

definition NewClient :: "'w Client \<Rightarrow> string \<Rightarrow> 'w Dependency" where
  "NewClient client prefix = \<lparr>d_client = client, d_prefix = prefix, d_isReady = None\<rparr>"

definition newNamespace :: "string \<Rightarrow> object" where
  "newNamespace name = NamespaceObj \<lparr>Name = name, Namespace = [], ResourceVersion = []\<rparr>"

definition newOperatorGroup :: "string \<Rightarrow> string \<Rightarrow> object" where
  "newOperatorGroup ns name =
     OperatorGroupObj \<lparr>Name = name, Namespace = ns, ResourceVersion = []\<rparr>
       \<lparr>TargetNamespaces = [ns]\<rparr>"

definition newSubscription :: "string \<Rightarrow> string \<Rightarrow> object" where
  "newSubscription ns name =
     SubscriptionObj \<lparr>Name = name, Namespace = ns, ResourceVersion = []\<rparr>
       \<lparr>Channel = ''alpha'', CatalogSource = ''community-operators'',
        CatalogSourceNamespace = ''openshift-marketplace'', Package = name\<rparr>"

definition addPrefixIfNecessary :: "string \<Rightarrow> string \<Rightarrow> string" where
  "addPrefixIfNecessary prefix name = (if prefix \<noteq> [] then prefix @ ''-'' @ name else name)"

definition GetSubscription :: "operatorResource \<Rightarrow> object" where
  "GetSubscription o' = newSubscription (namespace o') (subscription o')"

definition GetOperatorGroup :: "operatorResource \<Rightarrow> object" where
  "GetOperatorGroup o' = newOperatorGroup (namespace o') (operatorGroup o')"

definition GetNamespace :: "operatorResource \<Rightarrow> object" where
  "GetNamespace o' = newNamespace (namespace o')"

definition newArgoCDOperator :: "string \<Rightarrow> operatorResource" where
  "newArgoCDOperator prefix =
     \<lparr>namespace = addPrefixIfNecessary prefix ''argocd'',
      subscription = ''argocd-operator'',
      operatorGroup = ''argocd-operator-group'',
      csv = ''argocd-operator.v0.0.14''\<rparr>"

definition newSealedSecretsOperator :: "string \<Rightarrow> operatorResource" where
  "newSealedSecretsOperator prefix =
     \<lparr>namespace = addPrefixIfNecessary prefix ''cicd'',
      subscription = ''sealed-secrets-operator-helm'',
      operatorGroup = ''sealed-secrets-operator-group'',
      csv = ''sealed-secrets-operator-helm.v0.0.2''\<rparr>"

definition CSVPhaseFailed :: string where
  "CSVPhaseFailed = ''Failed''"

definition CSVPhaseSucceeded :: string where
  "CSVPhaseSucceeded = ''Succeeded''"

definition isOperatorReady :: "'w Client \<Rightarrow> NamespacedName \<Rightarrow> 'w ConditionFunc" where
  "isOperatorReady client ns w =
     (case clientGet client ns emptyClusterServiceVersion w of
        ((err, csv'), w1) \<Rightarrow>
          if err \<noteq> None \<and> \<not> IsNotFound err then ((False, err), w1)
          else if Phase (csvStatus csv') = CSVPhaseFailed then
            ((False, Some (Errorf (''Operator installation failed: '' @ Reason (csvStatus csv')))), w1)
          else if Phase (csvStatus csv') = CSVPhaseSucceeded then ((True, None), w1)
          else ((False, None), w1))"

definition waitForOperator ::
  "'w Client \<Rightarrow> NamespacedName \<Rightarrow> 'w ConditionFunc option \<Rightarrow> 'w world
     \<Rightarrow> (error option \<times> 'w world) option" where
  "waitForOperator client ns waitFunc w =
     PollImmediate (1 * Second) (1 * Minute)
       (case waitFunc of None \<Rightarrow> isOperatorReady client ns | Some f \<Rightarrow> f) w"

definition createResourceIfAbsent ::
  "'w Dependency \<Rightarrow> object \<Rightarrow> NamespacedName \<Rightarrow> 'w world \<Rightarrow> error option \<times> 'w world" where
  "createResourceIfAbsent d obj ns w =
     (case clientGet (d_client d) ns obj w of
        ((err, obj1), w1) \<Rightarrow>
          if err \<noteq> None then
            if IsNotFound err then
              (case clientCreate (d_client d) obj1 w1 of
                 (err2, w2) \<Rightarrow> if err2 \<noteq> None then (err2, w2) else (None, w2))
            else if IsAlreadyExists err then (None, w1)
            else (err, w1)
          else (None, w1))"

text \<open>The body of the \<open>for _, operator := range operators\<close> loop of \<open>Install\<close>, and the
  loop itself.\<close>

fun installLoop ::
  "'w Dependency \<Rightarrow> operatorResource list \<Rightarrow> 'w world \<Rightarrow> (error option \<times> 'w world) option" where
  "installLoop d [] w = Some (None, w)"
| "installLoop d (operator # rest) w =
     (case createResourceIfAbsent d (GetNamespace operator)
             \<lparr>nnNamespace = [], nnName = Name (objectMeta (GetNamespace operator))\<rparr> w of
        (err1, w1) \<Rightarrow>
          if err1 \<noteq> None then Some (err1, w1)
          else
     (case createResourceIfAbsent d (GetOperatorGroup operator)
             \<lparr>nnNamespace = Namespace (objectMeta (GetOperatorGroup operator)),
              nnName = Name (objectMeta (GetOperatorGroup operator))\<rparr> w1 of
        (err2, w2) \<Rightarrow>
          if err2 \<noteq> None then Some (err2, w2)
          else
     (case createResourceIfAbsent d (GetSubscription operator)
             \<lparr>nnNamespace = Namespace (objectMeta (GetSubscription operator)),
              nnName = Name (objectMeta (GetSubscription operator))\<rparr> w2 of
        (err3, w3) \<Rightarrow>
          if err3 \<noteq> None then Some (err3, w3)
          else
     (case waitForOperator (d_client d)
             \<lparr>nnNamespace = namespace operator, nnName = csv operator\<rparr> (d_isReady d) w3 of
        None \<Rightarrow> None
      | Some (err4, w4) \<Rightarrow>
          if err4 \<noteq> None then Some (err4, w4)
          else installLoop d rest w4))))"

definition Install :: "'w Dependency \<Rightarrow> 'w world \<Rightarrow> (error option \<times> 'w world) option" where
  "Install d w =
     installLoop d [newSealedSecretsOperator (d_prefix d), newArgoCDOperator (d_prefix d)] w"

section \<open>ArgoCD console-link reconciler (\<open>argocd_controller.go\<close>)\<close>

definition argocdNS :: string where
  "argocdNS = ''argocd''"

definition consoleLinkName :: string where
  "consoleLinkName = ''argocd''"

definition argocdInstanceName :: string where
  "argocdInstanceName = ''argocd''"

definition argocdRouteName :: string where
  "argocdRouteName = ''argocd-server''"

text \<open>\<open>console.ApplicationMenu\<close>, a \<open>ConsoleLinkLocation\<close> string constant.\<close>

definition ApplicationMenuLocation :: string where
  "ApplicationMenuLocation = ''ApplicationMenu''"

subsection \<open>Event filter\<close>

record UpdateEvent =
  MetaOld :: ObjectMeta
  MetaNew :: ObjectMeta

record CreateEvent =
  createMeta :: ObjectMeta

record DeleteEvent =
  deleteMeta :: ObjectMeta

record Funcs =
  UpdateFunc :: "UpdateEvent \<Rightarrow> bool"
  CreateFunc :: "CreateEvent \<Rightarrow> bool"
  DeleteFunc :: "DeleteEvent \<Rightarrow> bool"

definition filterPredicate :: "(string \<Rightarrow> string \<Rightarrow> bool) \<Rightarrow> Funcs" where
  "filterPredicate assert =
     \<lparr>UpdateFunc = (\<lambda>e. assert (Namespace (MetaNew e)) (Name (MetaNew e)) \<and>
                         ResourceVersion (MetaNew e) \<noteq> ResourceVersion (MetaOld e)),
      CreateFunc = (\<lambda>e. assert (Namespace (createMeta e)) (Name (createMeta e))),
      DeleteFunc = (\<lambda>e. assert (Namespace (deleteMeta e)) (Name (deleteMeta e)))\<rparr>"

definition assertArgoCD :: "string \<Rightarrow> string \<Rightarrow> bool" where
  "assertArgoCD ns name = (ns = argocdNS \<and> argocdInstanceName = name)"

definition assertArgoCDRoute :: "string \<Rightarrow> string \<Rightarrow> bool" where
  "assertArgoCDRoute ns name = (ns = argocdNS \<and> argocdRouteName = name)"

subsection \<open>Reconcile\<close>

record Request =
  reqNamespacedName :: NamespacedName

record Result =
  Requeue :: bool
  RequeueAfter :: Duration

definition emptyResult :: Result where
  "emptyResult = \<lparr>Requeue = False, RequeueAfter = 0\<rparr>"

text \<open>
  \<open>controllerutil.SetControllerReference owner controlled scheme\<close> is library code.  In
  \<open>Reconcile\<close> the object it would mark is a fresh route that is dropped afterwards,
  so only its error matters.  The scheme is taken as the function that decides that
  error.
\<close>

type_synonym Scheme = "object \<Rightarrow> object \<Rightarrow> error option"

definition SetControllerReference :: "object \<Rightarrow> object \<Rightarrow> Scheme \<Rightarrow> error option" where
  "SetControllerReference owner controlled scheme = scheme owner controlled"

record 'w ReconcileArgoCD =
  r_client :: "'w Client"
  r_scheme :: Scheme

definition newArgoCDRoute :: object where
  "newArgoCDRoute =
     RouteObj \<lparr>Name = argocdRouteName, Namespace = argocdNS, ResourceVersion = []\<rparr>
       \<lparr>Host = []\<rparr>"

text \<open>The package variable \<open>image\<close> (the icon as a data URL, read from an embedded
  file at start-up) is a parameter.\<close>

definition newConsoleLink :: "string \<Rightarrow> string \<Rightarrow> string \<Rightarrow> object" where
  "newConsoleLink image' href text' =
     ConsoleLinkObj \<lparr>Name = consoleLinkName, Namespace = [], ResourceVersion = []\<rparr>
       \<lparr>Link = \<lparr>Text = text', Href = href\<rparr>,
        Location = ApplicationMenuLocation,
        ApplicationMenu = Some \<lparr>Section = ''Application Stages'', ImageURL = image'\<rparr>\<rparr>"

definition deleteConsoleLinkIfPresent ::
  "'w ReconcileArgoCD \<Rightarrow> 'w world \<Rightarrow> error option \<times> 'w world" where
  "deleteConsoleLinkIfPresent r w =
     (case clientGet (r_client r) \<lparr>nnNamespace = [], nnName = consoleLinkName\<rparr>
             emptyConsoleLink w of
        ((err, found), w1) \<Rightarrow>
          if err \<noteq> None then
            if IsNotFound err then (None, w1)
            else (err, w1)
          else clientDelete (r_client r)
                 (ConsoleLinkObj \<lparr>Name = consoleLinkName, Namespace = [], ResourceVersion = []\<rparr>
                    \<lparr>Link = \<lparr>Text = [], Href = []\<rparr>, Location = [], ApplicationMenu = None\<rparr>)
                 w1)"

definition Reconcile ::
  "string \<Rightarrow> 'w ReconcileArgoCD \<Rightarrow> Request \<Rightarrow> 'w world
     \<Rightarrow> (Result \<times> error option) \<times> 'w world" where
  "Reconcile image' r request w =
     (case clientGet (r_client r) (reqNamespacedName request) emptyArgoCD w of
        ((err, argocdInstance), w1) \<Rightarrow>
          if err \<noteq> None then
            if IsNotFound err then
              (case deleteConsoleLinkIfPresent r w1 of (derr, w2) \<Rightarrow> ((emptyResult, derr), w2))
            else ((emptyResult, err), w1)
          else
     (case SetControllerReference argocdInstance newArgoCDRoute (r_scheme r) of
        Some serr \<Rightarrow> ((emptyResult, Some serr), w1)
      | None \<Rightarrow>
     (case clientGet (r_client r) \<lparr>nnNamespace = argocdNS, nnName = argocdRouteName\<rparr>
             emptyRoute w1 of
        ((err, argoCDRoute), w2) \<Rightarrow>
          if err \<noteq> None then
            if IsNotFound err then
              (case deleteConsoleLinkIfPresent r w2 of (derr, w3) \<Rightarrow> ((emptyResult, derr), w3))
            else ((emptyResult, err), w2)
          else
     (let consoleLink = newConsoleLink image' (''https://'' @ Host (routeSpec argoCDRoute)) ''ArgoCD''
      in case clientGet (r_client r)
                \<lparr>nnNamespace = [], nnName = Name (objectMeta consoleLink)\<rparr>
                emptyConsoleLink w2 of
        ((err, found), w3) \<Rightarrow>
          if err \<noteq> None \<and> IsNotFound err then
            (case clientCreate (r_client r) consoleLink w3 of
               (cerr, w4) \<Rightarrow>
                 if cerr \<noteq> None then ((emptyResult, cerr), w4)
                 else ((emptyResult, None), w4))
          else if err \<noteq> None then ((emptyResult, err), w3)
          else ((emptyResult, None), w3)))))"

section \<open>Two clusters to run the code on\<close>

text \<open>
  An in-memory cluster, in the manner of the fake client of the tests: objects are
  stored under their kind and key, a read does not change the store, a create of a
  present object answers AlreadyExists, a delete of an absent one NotFound.
\<close>

type_synonym store = "kind \<times> NamespacedName \<Rightarrow> object option"

definition objKey :: "object \<Rightarrow> NamespacedName" where
  "objKey obj = \<lparr>nnNamespace = Namespace (objectMeta obj), nnName = Name (objectMeta obj)\<rparr>"

definition notFound :: error where
  "notFound = StatusError StatusReasonNotFound ''not found''"

definition alreadyExists :: error where
  "alreadyExists = StatusError StatusReasonAlreadyExists ''already exists''"

definition fakeClient :: "store Client" where
  "fakeClient =
     \<lparr>Get = (\<lambda>k key s. case s (k, key) of
                          None \<Rightarrow> (Inl notFound, s)
                        | Some obj \<Rightarrow> (Inr obj, s)),
      Create = (\<lambda>obj s. if s (kindOf obj, objKey obj) \<noteq> None then (Some alreadyExists, s)
                         else (None, s((kindOf obj, objKey obj) := Some obj))),
      Delete = (\<lambda>obj s. if s (kindOf obj, objKey obj) = None then (Some notFound, s)
                         else (None, s((kindOf obj, objKey obj) := None)))\<rparr>"

text \<open>A scripted cluster: the state is the list of answers still to be given to
  reads, one per read, and NotFound when the script has run out; a create answers
  with a fixed error (or none), a delete succeeds.\<close>

definition scriptedClient :: "error option \<Rightarrow> ((error + object) list) Client" where
  "scriptedClient createErr =
     \<lparr>Get = (\<lambda>k key s. case s of [] \<Rightarrow> (Inl notFound, []) | a # rest \<Rightarrow> (a, rest)),
      Create = (\<lambda>obj s. (createErr, s)),
      Delete = (\<lambda>obj s. (None, s))\<rparr>"

definition initWorld :: "'w \<Rightarrow> 'w world" where
  "initWorld s = \<lparr>cluster = s, clock = 0, calls = []\<rparr>"

definition storeOf :: "object list \<Rightarrow> store" where
  "storeOf objs = map_of (map (\<lambda>obj. ((kindOf obj, objKey obj), obj)) objs)"

text \<open>The objects of the scenario of section 8 of the specification: an ArgoCD
  instance, its route with host \<open>foo.example.com\<close>, and a console link made earlier
  for another host.\<close>

definition exampleArgoCD :: object where
  "exampleArgoCD = ArgoCDObj \<lparr>Name = ''argocd'', Namespace = ''argocd'', ResourceVersion = ''1''\<rparr>"

definition exampleRoute :: object where
  "exampleRoute =
     RouteObj \<lparr>Name = ''argocd-server'', Namespace = ''argocd'', ResourceVersion = ''7''\<rparr>
       \<lparr>Host = ''foo.example.com''\<rparr>"

definition staleConsoleLink :: object where
  "staleConsoleLink = newConsoleLink ''icon'' ''https://old.example.com'' ''ArgoCD''"

definition exampleReconciler :: "'w Client \<Rightarrow> 'w ReconcileArgoCD" where
  "exampleReconciler c = \<lparr>r_client = c, r_scheme = (\<lambda>owner controlled. None)\<rparr>"

definition exampleRequest :: Request where
  "exampleRequest = \<lparr>reqNamespacedName = \<lparr>nnNamespace = ''argocd'', nnName = ''argocd''\<rparr>\<rparr>"

definition forbidden :: error where
  "forbidden = StatusError (StatusReasonOther ''Forbidden'') ''forbidden''"

text \<open>Two states of the ClusterServiceVersion of an operator being installed.\<close>

definition installingCSV :: object where
  "installingCSV =
     ClusterServiceVersionObj
       \<lparr>Name = ''sealed-secrets-operator-helm.v0.0.2'', Namespace = ''cicd'',
        ResourceVersion = ''3''\<rparr>
       \<lparr>Phase = ''Installing'', Reason = ''InstallWaiting''\<rparr>"

definition failedCSV :: object where
  "failedCSV =
     ClusterServiceVersionObj
       \<lparr>Name = ''sealed-secrets-operator-helm.v0.0.2'', Namespace = ''cicd'',
        ResourceVersion = ''4''\<rparr>
       \<lparr>Phase = ''Failed'', Reason = ''InstallCheckFailed''\<rparr>"

section \<open>The specification's reading of the installer\<close>

text \<open>
  The definitions of this section follow the words of the specification, not the
  code; the theorems below compare the code with them.
\<close>

text \<open>Section 4.1, step d: each poll iteration classifies the outcome of its read.
  Not found: continue polling.  Found with phase Succeeded: stop, done.  Found with
  phase Failed: stop, fail with an error embedding the reported reason.  Any other
  read error: abort with it.  Any other phase: continue polling.  (An answer that is
  not a ClusterServiceVersion cannot be read as one; it is a read error.)\<close>

datatype verdict = KeepPolling | Ready | Fail error

fun spec_classify :: "error + object \<Rightarrow> verdict" where
  "spec_classify (Inl e) = (if IsNotFound (Some e) then KeepPolling else Fail e)"
| "spec_classify (Inr (ClusterServiceVersionObj m st)) =
     (if Phase st = ''Succeeded'' then Ready
      else if Phase st = ''Failed'' then
        Fail (Errorf (''Operator installation failed: '' @ Reason st))
      else KeepPolling)"
| "spec_classify (Inr other) = Fail kindMismatch"

text \<open>The outcome of a poll over the verdicts of its successive reads: the first
  verdict that is not \<open>KeepPolling\<close> decides, and when the reads allowed before the
  deadline are used up the poll fails with a timeout.  \<open>spec_reads\<close> is the number of
  reads made.\<close>

fun spec_poll :: "verdict list \<Rightarrow> error option" where
  "spec_poll [] = Some ErrWaitTimeout"
| "spec_poll (KeepPolling # vs) = spec_poll vs"
| "spec_poll (Ready # vs) = None"
| "spec_poll (Fail e # vs) = Some e"

fun spec_reads :: "verdict list \<Rightarrow> nat" where
  "spec_reads [] = 0"
| "spec_reads (KeepPolling # vs) = Suc (spec_reads vs)"
| "spec_reads (Ready # vs) = 1"
| "spec_reads (Fail e # vs) = 1"

text \<open>The answers of the cluster to \<open>n\<close> successive reads of one key, from state \<open>s\<close>.\<close>

fun readAnswers :: "'w Client \<Rightarrow> kind \<Rightarrow> NamespacedName \<Rightarrow> 'w \<Rightarrow> nat \<Rightarrow> (error + object) list" where
  "readAnswers c k key s 0 = []"
| "readAnswers c k key s (Suc n) =
     (case Get c k key s of (a, s1) \<Rightarrow> a # readAnswers c k key s1 n)"

text \<open>Section 4.1, step 1: for each descriptor, in list order, create-if-absent the
  namespace, the operator group and the subscription (both in that namespace), then
  poll for readiness; every error is terminal for the whole call.\<close>

type_synonym 'w step = "'w world \<Rightarrow> (error option \<times> 'w world) option"

definition spec_steps :: "'w Dependency \<Rightarrow> operatorResource \<Rightarrow> 'w step list" where
  "spec_steps d op =
     [\<lambda>w. Some (createResourceIfAbsent d (newNamespace (namespace op))
                  \<lparr>nnNamespace = [], nnName = namespace op\<rparr> w),
      \<lambda>w. Some (createResourceIfAbsent d (newOperatorGroup (namespace op) (operatorGroup op))
                  \<lparr>nnNamespace = namespace op, nnName = operatorGroup op\<rparr> w),
      \<lambda>w. Some (createResourceIfAbsent d (newSubscription (namespace op) (subscription op))
                  \<lparr>nnNamespace = namespace op, nnName = subscription op\<rparr> w),
      waitForOperator (d_client d) \<lparr>nnNamespace = namespace op, nnName = csv op\<rparr> (d_isReady d)]"

fun spec_run :: "'w step list \<Rightarrow> 'w step" where
  "spec_run [] w = Some (None, w)"
| "spec_run (st # sts) w =
     (case st w of
        None \<Rightarrow> None
      | Some (err, w1) \<Rightarrow> if err \<noteq> None then Some (err, w1) else spec_run sts w1)"

section \<open>Properties\<close>

subsection \<open>Calls and their log\<close>

lemma cluster_logCall [simp]: "cluster (logCall c err s w) = s"
  by (simp add: logCall_def)

lemma clock_logCall [simp]: "clock (logCall c err s w) = clock w"
  by (simp add: logCall_def)

lemma calls_logCall [simp]: "calls (logCall c err s w) = calls w @ [(clock w, c, err)]"
  by (simp add: logCall_def)

lemma writes_logCall [simp]:
  "writes (logCall c err s w) = writes w @ (if isWrite c then [(clock w, c, err)] else [])"
  by (simp add: writes_def)

lemma clientGet_Inl:
  "Get c (kindOf obj) key (cluster w) = (Inl e, s) \<Longrightarrow>
   clientGet c key obj w = ((Some e, obj), logCall (GetCall (kindOf obj) key) (Some e) s w)"
  by (simp add: clientGet_def)

lemma clientGet_Inr:
  "Get c (kindOf obj) key (cluster w) = (Inr found, s) \<Longrightarrow> kindOf found = kindOf obj \<Longrightarrow>
   clientGet c key obj w = ((None, found), logCall (GetCall (kindOf obj) key) None s w)"
  by (simp add: clientGet_def)

lemma clientGet_cases:
  obtains (failed) e s where
      "clientGet c key obj w = ((Some e, obj), logCall (GetCall (kindOf obj) key) (Some e) s w)"
  | (found) found s where
      "clientGet c key obj w = ((None, found), logCall (GetCall (kindOf obj) key) None s w)"
      "kindOf found = kindOf obj"
proof (cases "Get c (kindOf obj) key (cluster w)")
  case (Pair res s)
  show thesis
  proof (cases res)
    case (Inl e)
    with Pair failed [of e s] show thesis by (simp add: clientGet_def)
  next
    case (Inr x)
    show thesis
    proof (cases "kindOf x = kindOf obj")
      case True
      with Pair Inr found [of x s] show thesis by (simp add: clientGet_def)
    next
      case False
      with Pair Inr failed [of kindMismatch s] show thesis by (simp add: clientGet_def)
    qed
  qed
qed

lemma kind_simps [simp]:
  "kindOf emptyArgoCD = KArgoCD" "kindOf emptyRoute = KRoute"
  "kindOf emptyConsoleLink = KConsoleLink"
  "kindOf emptyClusterServiceVersion = KClusterServiceVersion"
  by (simp_all add: emptyArgoCD_def emptyRoute_def emptyConsoleLink_def
        emptyClusterServiceVersion_def)

text \<open>
  \<^bold>\<open>C1.\<close>  The claim: when the resource is absent and the create that follows
  fails with AlreadyExists (a creation race), create-if-absent returns nil.  The
  code does not do so.  On the cluster whose reads answer NotFound and whose creates
  answer AlreadyExists, \<open>createResourceIfAbsent\<close> returns the AlreadyExists error of
  the create: the \<open>IsAlreadyExists\<close> test of the source is applied to the error of
  the read, and the error of the create is returned whatever it is.
\<close>
theorem createResourceIfAbsent_create_race:
  "createResourceIfAbsent (NewClient (scriptedClient (Some alreadyExists)) [])
     (newNamespace ''cicd'') \<lparr>nnNamespace = [], nnName = ''cicd''\<rparr> (initWorld [])
   = (Some alreadyExists,
      \<lparr>cluster = [], clock = 0,
       calls = [(0, GetCall KNamespace \<lparr>nnNamespace = [], nnName = ''cicd''\<rparr>, Some notFound),
                (0, CreateCall (newNamespace ''cicd''), Some alreadyExists)]\<rparr>)
   \<and> IsAlreadyExists (Some alreadyExists)"
  by (simp add: createResourceIfAbsent_def NewClient_def scriptedClient_def clientGet_def
        clientCreate_def logCall_def initWorld_def newNamespace_def notFound_def alreadyExists_def)

text \<open>
  \<^bold>\<open>C9.\<close>  The update filter.  An update event whose new resource version equals
  the old one is rejected by \<open>UpdateFunc\<close>, whatever the identity test is; an update
  event that passes the identity test and whose version has changed is accepted.
  For the two watches of the controller the identity test holds of the ArgoCD
  instance \<open>argocd/argocd\<close> and of the route \<open>argocd/argocd-server\<close>.
\<close>
theorem filterPredicate_update:
  "(ResourceVersion (MetaNew e) = ResourceVersion (MetaOld e)
      \<longrightarrow> \<not> UpdateFunc (filterPredicate assert) e)
   \<and> (assert (Namespace (MetaNew e)) (Name (MetaNew e))
        \<and> ResourceVersion (MetaNew e) \<noteq> ResourceVersion (MetaOld e)
      \<longrightarrow> UpdateFunc (filterPredicate assert) e)
   \<and> (Namespace (MetaNew e) = ''argocd'' \<and> Name (MetaNew e) = ''argocd''
        \<and> ResourceVersion (MetaNew e) \<noteq> ResourceVersion (MetaOld e)
      \<longrightarrow> UpdateFunc (filterPredicate assertArgoCD) e)
   \<and> (Namespace (MetaNew e) = ''argocd'' \<and> Name (MetaNew e) = ''argocd-server''
        \<and> ResourceVersion (MetaNew e) \<noteq> ResourceVersion (MetaOld e)
      \<longrightarrow> UpdateFunc (filterPredicate assertArgoCDRoute) e)"
  by (simp add: filterPredicate_def assertArgoCD_def assertArgoCDRoute_def argocdNS_def
        argocdInstanceName_def argocdRouteName_def)

text \<open>
  \<^bold>\<open>C5.\<close>  When the reads of the ArgoCD instance, of its route and of the console
  link all find their object (and the owner reference can be set), \<open>Reconcile\<close>
  returns success after exactly these three reads: it issues no create and no
  delete, and the cluster is in the state the third read left it in.  Nothing
  relates the link found to the route found, so a link made for another host is
  left as it is.
\<close>
theorem Reconcile_skips_existing_ConsoleLink:
  assumes "Get (r_client r) KArgoCD (reqNamespacedName request) (cluster w) = (Inr argocd, s1)"
    and "kindOf argocd = KArgoCD"
    and "SetControllerReference argocd newArgoCDRoute (r_scheme r) = None"
    and "Get (r_client r) KRoute \<lparr>nnNamespace = ''argocd'', nnName = ''argocd-server''\<rparr> s1
           = (Inr route, s2)"
    and "kindOf route = KRoute"
    and "Get (r_client r) KConsoleLink \<lparr>nnNamespace = [], nnName = ''argocd''\<rparr> s2
           = (Inr link, s3)"
    and "kindOf link = KConsoleLink"
  shows "Reconcile image' r request w =
           ((emptyResult, None),
            w\<lparr>cluster := s3,
              calls := calls w @
                [(clock w, GetCall KArgoCD (reqNamespacedName request), None),
                 (clock w, GetCall KRoute \<lparr>nnNamespace = ''argocd'', nnName = ''argocd-server''\<rparr>, None),
                 (clock w, GetCall KConsoleLink \<lparr>nnNamespace = [], nnName = ''argocd''\<rparr>, None)]\<rparr>)
         \<and> writes (snd (Reconcile image' r request w)) = writes w"
  using assms
  by (simp add: Reconcile_def clientGet_Inr clientGet_Inl argocdNS_def argocdRouteName_def
        newConsoleLink_def consoleLinkName_def logCall_def writes_def)

text \<open>
  \<^bold>\<open>C3.\<close>  When the ArgoCD instance and its route are found and the console link
  is not, \<open>Reconcile\<close> issues exactly one write: the create of the link named
  \<open>argocd\<close>, with text \<open>ArgoCD\<close>, href \<open>https://\<close> followed by the host of the route,
  location \<open>ApplicationMenu\<close> and section \<open>Application Stages\<close>; the create
  succeeding, it returns success.
\<close>
theorem Reconcile_creates_ConsoleLink:
  assumes "Get (r_client r) KArgoCD (reqNamespacedName request) (cluster w) = (Inr argocd, s1)"
    and "kindOf argocd = KArgoCD"
    and "SetControllerReference argocd newArgoCDRoute (r_scheme r) = None"
    and "Get (r_client r) KRoute \<lparr>nnNamespace = ''argocd'', nnName = ''argocd-server''\<rparr> s1
           = (Inr (RouteObj m spec), s2)"
    and "Get (r_client r) KConsoleLink \<lparr>nnNamespace = [], nnName = ''argocd''\<rparr> s2
           = (Inl e, s3)"
    and "IsNotFound (Some e)"
    and "link = ConsoleLinkObj \<lparr>Name = ''argocd'', Namespace = [], ResourceVersion = []\<rparr>
                  \<lparr>Link = \<lparr>Text = ''ArgoCD'', Href = ''https://'' @ Host spec\<rparr>,
                   Location = ''ApplicationMenu'',
                   ApplicationMenu =
                     Some \<lparr>Section = ''Application Stages'', ImageURL = image'\<rparr>\<rparr>"
    and "Create (r_client r) link s3 = (None, s4)"
  shows "Reconcile image' r request w =
           ((emptyResult, None),
            w\<lparr>cluster := s4,
              calls := calls w @
                [(clock w, GetCall KArgoCD (reqNamespacedName request), None),
                 (clock w, GetCall KRoute \<lparr>nnNamespace = ''argocd'', nnName = ''argocd-server''\<rparr>, None),
                 (clock w, GetCall KConsoleLink \<lparr>nnNamespace = [], nnName = ''argocd''\<rparr>, Some e),
                 (clock w, CreateCall link, None)]\<rparr>)
         \<and> writes (snd (Reconcile image' r request w)) = writes w @ [(clock w, CreateCall link, None)]"
  using assms
  by (simp add: Reconcile_def clientGet_Inr clientGet_Inl clientCreate_def argocdNS_def
        argocdRouteName_def newConsoleLink_def consoleLinkName_def ApplicationMenuLocation_def
        logCall_def writes_def)


lemma deleteConsoleLinkIfPresent_absent:
  assumes "Get (r_client r) KConsoleLink \<lparr>nnNamespace = [], nnName = ''argocd''\<rparr> (cluster w)
             = (Inl e, s)"
    and "IsNotFound (Some e)"
  shows "deleteConsoleLinkIfPresent r w =
           (None, logCall (GetCall KConsoleLink \<lparr>nnNamespace = [], nnName = ''argocd''\<rparr>) (Some e) s w)"
  using assms by (simp add: deleteConsoleLinkIfPresent_def clientGet_Inl consoleLinkName_def)

lemma deleteConsoleLinkIfPresent_present:
  assumes "Get (r_client r) KConsoleLink \<lparr>nnNamespace = [], nnName = ''argocd''\<rparr> (cluster w)
             = (Inr l, s)"
    and "kindOf l = KConsoleLink"
    and "Delete (r_client r) d s = (derr, s')"
    and "d = ConsoleLinkObj \<lparr>Name = ''argocd'', Namespace = [], ResourceVersion = []\<rparr>
                 \<lparr>Link = \<lparr>Text = [], Href = []\<rparr>, Location = [], ApplicationMenu = None\<rparr>"
  shows "deleteConsoleLinkIfPresent r w =
           (derr, logCall (DeleteCall d) derr s'
                    (logCall (GetCall KConsoleLink \<lparr>nnNamespace = [], nnName = ''argocd''\<rparr>) None s w))"
  using assms
  by (simp add: deleteConsoleLinkIfPresent_def clientGet_Inr clientDelete_def consoleLinkName_def)

lemma Reconcile_primary_absent:
  assumes "Get (r_client r) KArgoCD (reqNamespacedName request) (cluster w) = (Inl e, s1)"
    and "IsNotFound (Some e)"
  shows "Reconcile image' r request w =
           (case deleteConsoleLinkIfPresent r
                   (logCall (GetCall KArgoCD (reqNamespacedName request)) (Some e) s1 w) of
              (derr, w2) \<Rightarrow> ((emptyResult, derr), w2))"
  using assms by (simp add: Reconcile_def clientGet_Inl)

lemma Reconcile_route_absent:
  assumes "Get (r_client r) KArgoCD (reqNamespacedName request) (cluster w) = (Inr argocd, s1)"
    and "kindOf argocd = KArgoCD"
    and "SetControllerReference argocd newArgoCDRoute (r_scheme r) = None"
    and "Get (r_client r) KRoute \<lparr>nnNamespace = ''argocd'', nnName = ''argocd-server''\<rparr> s1
           = (Inl e, s2)"
    and "IsNotFound (Some e)"
  shows "Reconcile image' r request w =
           (case deleteConsoleLinkIfPresent r
                   (logCall (GetCall KRoute \<lparr>nnNamespace = ''argocd'', nnName = ''argocd-server''\<rparr>)
                      (Some e) s2
                      (logCall (GetCall KArgoCD (reqNamespacedName request)) None s1 w)) of
              (derr, w3) \<Rightarrow> ((emptyResult, derr), w3))"
  using assms
  by (simp add: Reconcile_def clientGet_Inl clientGet_Inr argocdNS_def argocdRouteName_def)

text \<open>
  \<^bold>\<open>C4.\<close>  When the ArgoCD instance is not found, or it is found (and the owner
  reference can be set) and its route is not found, \<open>Reconcile\<close> reads the console
  link next (in the world \<open>wd\<close>).  If the link is not found it returns success and
  has written nothing.  If the link is found it issues one write, the delete of the
  link named \<open>argocd\<close>, and, the delete succeeding, returns success.
\<close>
theorem Reconcile_deletes_ConsoleLink:
  assumes "(Get (r_client r) KArgoCD (reqNamespacedName request) (cluster w) = (Inl e1, s1)
              \<and> IsNotFound (Some e1)
              \<and> wd = logCall (GetCall KArgoCD (reqNamespacedName request)) (Some e1) s1 w)
         \<or> (Get (r_client r) KArgoCD (reqNamespacedName request) (cluster w) = (Inr argocd, s1)
              \<and> kindOf argocd = KArgoCD
              \<and> SetControllerReference argocd newArgoCDRoute (r_scheme r) = None
              \<and> Get (r_client r) KRoute \<lparr>nnNamespace = ''argocd'', nnName = ''argocd-server''\<rparr> s1
                   = (Inl e2, s2)
              \<and> IsNotFound (Some e2)
              \<and> wd = logCall (GetCall KRoute \<lparr>nnNamespace = ''argocd'', nnName = ''argocd-server''\<rparr>)
                        (Some e2) s2
                        (logCall (GetCall KArgoCD (reqNamespacedName request)) None s1 w))"
    and "d = ConsoleLinkObj \<lparr>Name = ''argocd'', Namespace = [], ResourceVersion = []\<rparr>
                 \<lparr>Link = \<lparr>Text = [], Href = []\<rparr>, Location = [], ApplicationMenu = None\<rparr>"
  shows "(Get (r_client r) KConsoleLink \<lparr>nnNamespace = [], nnName = ''argocd''\<rparr> (cluster wd)
            = (Inl e3, s3) \<and> IsNotFound (Some e3)
          \<longrightarrow> Reconcile image' r request w =
                ((emptyResult, None),
                 logCall (GetCall KConsoleLink \<lparr>nnNamespace = [], nnName = ''argocd''\<rparr>)
                   (Some e3) s3 wd)
              \<and> writes (snd (Reconcile image' r request w)) = writes w)
       \<and> (Get (r_client r) KConsoleLink \<lparr>nnNamespace = [], nnName = ''argocd''\<rparr> (cluster wd)
            = (Inr l, s3) \<and> kindOf l = KConsoleLink \<and> Delete (r_client r) d s3 = (None, s4)
          \<longrightarrow> Reconcile image' r request w =
                ((emptyResult, None),
                 logCall (DeleteCall d) None s4
                   (logCall (GetCall KConsoleLink \<lparr>nnNamespace = [], nnName = ''argocd''\<rparr>)
                      None s3 wd))
              \<and> writes (snd (Reconcile image' r request w))
                  = writes w @ [(clock w, DeleteCall d, None)])"
  using assms
  by (auto simp: Reconcile_primary_absent Reconcile_route_absent
        deleteConsoleLinkIfPresent_absent deleteConsoleLinkIfPresent_present)


lemma deleteConsoleLinkIfPresent_read_error:
  assumes "deleteConsoleLinkIfPresent r w = (err, w')"
    and "(t, GetCall k key, Some e) \<in> set (drop (length (calls w)) (calls w'))"
    and "\<not> IsNotFound (Some e)"
  shows "err = Some e \<and> writes w' = writes w"
proof (cases rule: clientGet_cases [of "r_client r" "\<lparr>nnNamespace = [], nnName = consoleLinkName\<rparr>"
                 emptyConsoleLink w])
  case (failed e' s)
  with assms show ?thesis
    by (auto simp: deleteConsoleLinkIfPresent_def split: if_splits)
next
  case (found f s)
  with assms show ?thesis
    by (auto simp: deleteConsoleLinkIfPresent_def clientDelete_def split: prod.splits)
qed

lemma deleteConsoleLinkIfPresent_calls:
  "\<exists>cs. calls (snd (deleteConsoleLinkIfPresent r w)) = calls w @ cs"
  by (cases rule: clientGet_cases [of "r_client r" "\<lparr>nnNamespace = [], nnName = consoleLinkName\<rparr>"
                 emptyConsoleLink w])
     (auto simp: deleteConsoleLinkIfPresent_def clientDelete_def split: prod.splits)

text \<open>
  \<^bold>\<open>C10.\<close>  If, during a run of \<open>Reconcile\<close>, some read answered with an error that
  is not NotFound, then the run returns exactly that error and has issued no create
  and no delete.
\<close>
theorem Reconcile_read_error_no_write:
  assumes run: "Reconcile image' r request w = ((res, err), w')"
    and rd: "(t, GetCall k key, Some e) \<in> set (drop (length (calls w)) (calls w'))"
    and nf: "\<not> IsNotFound (Some e)"
  shows "err = Some e \<and> writes w' = writes w"
proof (cases rule: clientGet_cases [of "r_client r" "reqNamespacedName request" emptyArgoCD w])
  case (failed e1 s1)
  let ?w1 = "logCall (GetCall (kindOf emptyArgoCD) (reqNamespacedName request)) (Some e1) s1 w"
  show ?thesis
  proof (cases "IsNotFound (Some e1)")
    case False
    with failed run rd nf show ?thesis by (auto simp: Reconcile_def)
  next
    case True
    obtain derr w2 where d: "deleteConsoleLinkIfPresent r ?w1 = (derr, w2)"
      by (cases "deleteConsoleLinkIfPresent r ?w1")
    from deleteConsoleLinkIfPresent_calls [of r ?w1] d obtain cs where
      cs: "calls w2 = calls ?w1 @ cs" by auto
    from failed True run d have eq: "err = derr" "w' = w2" by (auto simp: Reconcile_def)
    from rd eq cs True nf have "(t, GetCall k key, Some e) \<in> set (drop (length (calls ?w1)) (calls w2))"
      by auto
    from deleteConsoleLinkIfPresent_read_error [OF d this nf] eq show ?thesis by simp
  qed
next
  case (found argocd s1)
  let ?w1 = "logCall (GetCall (kindOf emptyArgoCD) (reqNamespacedName request)) None s1 w"
  show ?thesis
  proof (cases "SetControllerReference argocd newArgoCDRoute (r_scheme r)")
    case (Some serr)
    with found run rd show ?thesis by (auto simp: Reconcile_def)
  next
    case None
    note scr = None
    show ?thesis
    proof (cases rule: clientGet_cases [of "r_client r"
               "\<lparr>nnNamespace = argocdNS, nnName = argocdRouteName\<rparr>" emptyRoute ?w1])
      case (failed e2 s2)
      let ?w2 = "logCall (GetCall (kindOf emptyRoute) \<lparr>nnNamespace = argocdNS, nnName = argocdRouteName\<rparr>)
                   (Some e2) s2 ?w1"
      show ?thesis
      proof (cases "IsNotFound (Some e2)")
        case False
        with failed found scr run rd nf show ?thesis by (auto simp: Reconcile_def)
      next
        case True
        obtain derr w3 where d: "deleteConsoleLinkIfPresent r ?w2 = (derr, w3)"
          by (cases "deleteConsoleLinkIfPresent r ?w2")
        from deleteConsoleLinkIfPresent_calls [of r ?w2] d obtain cs where
          cs: "calls w3 = calls ?w2 @ cs" by auto
        from failed found scr True run d have eq: "err = derr" "w' = w3"
          by (auto simp: Reconcile_def)
        from rd eq cs True nf
        have "(t, GetCall k key, Some e) \<in> set (drop (length (calls ?w2)) (calls w3))"
          by auto
        from deleteConsoleLinkIfPresent_read_error [OF d this nf] eq show ?thesis by simp
      qed
    next
      case (found route s2)
      note rt = found
      let ?w2 = "logCall (GetCall (kindOf emptyRoute) \<lparr>nnNamespace = argocdNS, nnName = argocdRouteName\<rparr>)
                   None s2 ?w1"
      show ?thesis
      proof (cases rule: clientGet_cases [of "r_client r"
                 "\<lparr>nnNamespace = [], nnName = consoleLinkName\<rparr>" emptyConsoleLink ?w2])
        case (failed e3 s3)
        with rt \<open>clientGet (r_client r) (reqNamespacedName request) emptyArgoCD w = _\<close>
          scr run rd nf show ?thesis
          by (auto simp: Reconcile_def newConsoleLink_def clientCreate_def
                split: if_splits prod.splits)
      next
        case (found l s3)
        with rt \<open>clientGet (r_client r) (reqNamespacedName request) emptyArgoCD w = _\<close>
          scr run rd nf show ?thesis
          by (auto simp: Reconcile_def newConsoleLink_def)
      qed
    qed
  qed
qed


lemma example_kinds [simp]:
  "kindOf exampleArgoCD = KArgoCD" "kindOf exampleRoute = KRoute"
  "kindOf staleConsoleLink = KConsoleLink"
  by (simp_all add: exampleArgoCD_def exampleRoute_def staleConsoleLink_def newConsoleLink_def)

lemmas example_defs =
  fakeClient_def storeOf_def objKey_def exampleArgoCD_def exampleRoute_def staleConsoleLink_def
  newConsoleLink_def exampleReconciler_def exampleRequest_def initWorld_def
  SetControllerReference_def consoleLinkName_def ApplicationMenuLocation_def notFound_def

theorem Reconcile_skips_existing_ConsoleLink_witness:
  "Reconcile ''icon'' (exampleReconciler fakeClient) exampleRequest
     (initWorld (storeOf [exampleArgoCD, exampleRoute, staleConsoleLink]))
   = ((emptyResult, None),
      \<lparr>cluster = storeOf [exampleArgoCD, exampleRoute, staleConsoleLink], clock = 0,
       calls = [(0, GetCall KArgoCD \<lparr>nnNamespace = ''argocd'', nnName = ''argocd''\<rparr>, None),
                (0, GetCall KRoute \<lparr>nnNamespace = ''argocd'', nnName = ''argocd-server''\<rparr>, None),
                (0, GetCall KConsoleLink \<lparr>nnNamespace = [], nnName = ''argocd''\<rparr>, None)]\<rparr>)
   \<and> Host (routeSpec exampleRoute) = ''foo.example.com''
   \<and> cluster (snd (Reconcile ''icon'' (exampleReconciler fakeClient) exampleRequest
                      (initWorld (storeOf [exampleArgoCD, exampleRoute, staleConsoleLink]))))
        (KConsoleLink, \<lparr>nnNamespace = [], nnName = ''argocd''\<rparr>)
      = Some (newConsoleLink ''icon'' ''https://old.example.com'' ''ArgoCD'')"
proof -
  let ?s = "storeOf [exampleArgoCD, exampleRoute, staleConsoleLink]"
  let ?r = "exampleReconciler fakeClient"
  have a1: "Get (r_client ?r) KArgoCD (reqNamespacedName exampleRequest) (cluster (initWorld ?s))
              = (Inr exampleArgoCD, ?s)"
    by (simp add: example_defs)
  have a2: "SetControllerReference exampleArgoCD newArgoCDRoute (r_scheme ?r) = None"
    by (simp add: example_defs)
  have a3: "Get (r_client ?r) KRoute \<lparr>nnNamespace = ''argocd'', nnName = ''argocd-server''\<rparr> ?s
              = (Inr exampleRoute, ?s)"
    by (simp add: example_defs)
  have a4: "Get (r_client ?r) KConsoleLink \<lparr>nnNamespace = [], nnName = ''argocd''\<rparr> ?s
              = (Inr staleConsoleLink, ?s)"
    by (simp add: example_defs)
  have look: "?s (KConsoleLink, \<lparr>nnNamespace = [], nnName = ''argocd''\<rparr>)
                = Some (newConsoleLink ''icon'' ''https://old.example.com'' ''ArgoCD'')"
    by (simp add: example_defs)
  have host: "Host (routeSpec exampleRoute) = ''foo.example.com''"
    by (simp add: exampleRoute_def)
  from Reconcile_skips_existing_ConsoleLink
         [where image' = "''icon''", OF a1 _ a2 a3 _ a4] look host
  show ?thesis by (simp add: initWorld_def exampleRequest_def)
qed


theorem Reconcile_creates_ConsoleLink_witness:
  "Reconcile ''icon'' (exampleReconciler fakeClient) exampleRequest
     (initWorld (storeOf [exampleArgoCD, exampleRoute]))
   = ((emptyResult, None),
      \<lparr>cluster = (storeOf [exampleArgoCD, exampleRoute])
                   ((KConsoleLink, \<lparr>nnNamespace = [], nnName = ''argocd''\<rparr>) :=
                      Some (newConsoleLink ''icon'' ''https://foo.example.com'' ''ArgoCD'')),
       clock = 0,
       calls = [(0, GetCall KArgoCD \<lparr>nnNamespace = ''argocd'', nnName = ''argocd''\<rparr>, None),
                (0, GetCall KRoute \<lparr>nnNamespace = ''argocd'', nnName = ''argocd-server''\<rparr>, None),
                (0, GetCall KConsoleLink \<lparr>nnNamespace = [], nnName = ''argocd''\<rparr>, Some notFound),
                (0, CreateCall (newConsoleLink ''icon'' ''https://foo.example.com'' ''ArgoCD''),
                 None)]\<rparr>)"
proof -
  let ?s = "storeOf [exampleArgoCD, exampleRoute]"
  let ?r = "exampleReconciler fakeClient"
  let ?l = "newConsoleLink ''icon'' ''https://foo.example.com'' ''ArgoCD''"
  let ?s4 = "?s((KConsoleLink, \<lparr>nnNamespace = [], nnName = ''argocd''\<rparr>) := Some ?l)"
  have a1: "Get (r_client ?r) KArgoCD (reqNamespacedName exampleRequest) (cluster (initWorld ?s))
              = (Inr exampleArgoCD, ?s)"
    by (simp add: example_defs)
  have a2: "SetControllerReference exampleArgoCD newArgoCDRoute (r_scheme ?r) = None"
    by (simp add: example_defs)
  have a3: "Get (r_client ?r) KRoute \<lparr>nnNamespace = ''argocd'', nnName = ''argocd-server''\<rparr> ?s
              = (Inr (RouteObj \<lparr>Name = ''argocd-server'', Namespace = ''argocd'',
                                ResourceVersion = ''7''\<rparr> \<lparr>Host = ''foo.example.com''\<rparr>), ?s)"
    by (simp add: example_defs)
  have a4: "Get (r_client ?r) KConsoleLink \<lparr>nnNamespace = [], nnName = ''argocd''\<rparr> ?s
              = (Inl notFound, ?s)"
    by (simp add: example_defs)
  have a5: "IsNotFound (Some notFound)"
    by (simp add: notFound_def)
  have a6: "?l = ConsoleLinkObj \<lparr>Name = ''argocd'', Namespace = [], ResourceVersion = []\<rparr>
                  \<lparr>Link = \<lparr>Text = ''ArgoCD'', Href = ''https://'' @ Host \<lparr>Host = ''foo.example.com''\<rparr>\<rparr>,
                   Location = ''ApplicationMenu'',
                   ApplicationMenu =
                     Some \<lparr>Section = ''Application Stages'', ImageURL = ''icon''\<rparr>\<rparr>"
    by (simp add: example_defs)
  have a7: "Create (r_client ?r) ?l ?s = (None, ?s4)"
    by (simp add: example_defs)
  from Reconcile_creates_ConsoleLink [OF a1 _ a2 a3 a4 a5 a6 a7]
  show ?thesis by (simp add: initWorld_def exampleRequest_def)
qed

theorem Reconcile_deletes_ConsoleLink_witness:
  "Reconcile ''icon'' (exampleReconciler fakeClient) exampleRequest
     (initWorld (storeOf [staleConsoleLink]))
   = ((emptyResult, None),
      \<lparr>cluster = (storeOf [staleConsoleLink])
                   ((KConsoleLink, \<lparr>nnNamespace = [], nnName = ''argocd''\<rparr>) := None),
       clock = 0,
       calls = [(0, GetCall KArgoCD \<lparr>nnNamespace = ''argocd'', nnName = ''argocd''\<rparr>, Some notFound),
                (0, GetCall KConsoleLink \<lparr>nnNamespace = [], nnName = ''argocd''\<rparr>, None),
                (0, DeleteCall
                      (ConsoleLinkObj \<lparr>Name = ''argocd'', Namespace = [], ResourceVersion = []\<rparr>
                         \<lparr>Link = \<lparr>Text = [], Href = []\<rparr>, Location = [], ApplicationMenu = None\<rparr>),
                 None)]\<rparr>)
   \<and> Reconcile ''icon'' (exampleReconciler fakeClient) exampleRequest
       (initWorld (storeOf [exampleArgoCD]))
   = ((emptyResult, None),
      \<lparr>cluster = storeOf [exampleArgoCD], clock = 0,
       calls = [(0, GetCall KArgoCD \<lparr>nnNamespace = ''argocd'', nnName = ''argocd''\<rparr>, None),
                (0, GetCall KRoute \<lparr>nnNamespace = ''argocd'', nnName = ''argocd-server''\<rparr>, Some notFound),
                (0, GetCall KConsoleLink \<lparr>nnNamespace = [], nnName = ''argocd''\<rparr>, Some notFound)]\<rparr>)"
proof -
  let ?r = "exampleReconciler fakeClient"
  let ?d = "ConsoleLinkObj \<lparr>Name = ''argocd'', Namespace = [], ResourceVersion = []\<rparr>
              \<lparr>Link = \<lparr>Text = [], Href = []\<rparr>, Location = [], ApplicationMenu = None\<rparr>"
  let ?lk = "\<lparr>nnNamespace = [], nnName = ''argocd''\<rparr>"
  let ?rk = "\<lparr>nnNamespace = ''argocd'', nnName = ''argocd-server''\<rparr>"
  let ?s = "storeOf [staleConsoleLink]"
  let ?w = "initWorld ?s"
  let ?wd = "logCall (GetCall KArgoCD (reqNamespacedName exampleRequest)) (Some notFound) ?s ?w"
  have nf: "IsNotFound (Some notFound)"
    by (simp add: notFound_def)
  have a1: "Get (r_client ?r) KArgoCD (reqNamespacedName exampleRequest) (cluster ?w)
              = (Inl notFound, ?s)"
    by (simp add: example_defs)
  have a2: "Get (r_client ?r) KConsoleLink ?lk (cluster ?wd) = (Inr staleConsoleLink, ?s)"
    by (simp add: example_defs)
  have a3: "Delete (r_client ?r) ?d ?s = (None, ?s((KConsoleLink, ?lk) := None))"
    by (simp add: example_defs)
  have first: "Reconcile ''icon'' ?r exampleRequest ?w =
                 ((emptyResult, None),
                  logCall (DeleteCall ?d) None (?s((KConsoleLink, ?lk) := None))
                    (logCall (GetCall KConsoleLink ?lk) None ?s ?wd))"
    using Reconcile_deletes_ConsoleLink
            [where r = ?r and request = exampleRequest and w = ?w and wd = ?wd and d = ?d
               and ?e1.0 = notFound and ?s1.0 = ?s and l = staleConsoleLink and ?s3.0 = ?s
               and ?s4.0 = "?s((KConsoleLink, ?lk) := None)" and image' = "''icon''"]
          a1 a2 a3 nf
    by simp
  let ?t = "storeOf [exampleArgoCD]"
  let ?v = "initWorld ?t"
  let ?vd = "logCall (GetCall KRoute ?rk) (Some notFound) ?t
               (logCall (GetCall KArgoCD (reqNamespacedName exampleRequest)) None ?t ?v)"
  have b1: "Get (r_client ?r) KArgoCD (reqNamespacedName exampleRequest) (cluster ?v)
              = (Inr exampleArgoCD, ?t)"
    by (simp add: example_defs)
  have b2: "SetControllerReference exampleArgoCD newArgoCDRoute (r_scheme ?r) = None"
    by (simp add: example_defs)
  have b3: "Get (r_client ?r) KRoute ?rk ?t = (Inl notFound, ?t)"
    by (simp add: example_defs)
  have b4: "Get (r_client ?r) KConsoleLink ?lk (cluster ?vd) = (Inl notFound, ?t)"
    by (simp add: example_defs)
  have second: "Reconcile ''icon'' ?r exampleRequest ?v =
                  ((emptyResult, None), logCall (GetCall KConsoleLink ?lk) (Some notFound) ?t ?vd)"
    using Reconcile_deletes_ConsoleLink
            [where r = ?r and request = exampleRequest and w = ?v and wd = ?vd and d = ?d
               and argocd = exampleArgoCD and ?s1.0 = ?t and ?e2.0 = notFound and ?s2.0 = ?t
               and ?e3.0 = notFound and ?s3.0 = ?t and image' = "''icon''"]
          b1 b2 b3 b4 nf
    by simp
  from first second show ?thesis
    by (simp add: logCall_def initWorld_def exampleRequest_def)
qed

theorem Reconcile_read_error_no_write_witness:
  "fst (Reconcile ''icon'' (exampleReconciler (scriptedClient None)) exampleRequest
          (initWorld [Inr exampleArgoCD, Inl forbidden]))
     = (emptyResult, Some forbidden)
   \<and> writes (snd (Reconcile ''icon'' (exampleReconciler (scriptedClient None)) exampleRequest
                     (initWorld [Inr exampleArgoCD, Inl forbidden]))) = []"
proof -
  let ?run = "Reconcile ''icon'' (exampleReconciler (scriptedClient None)) exampleRequest
                (initWorld [Inr exampleArgoCD, Inl forbidden])"
  have run: "?run = ((fst (fst ?run), snd (fst ?run)), snd ?run)"
    by simp
  have calls: "calls (snd ?run) =
                 [(0, GetCall KArgoCD \<lparr>nnNamespace = ''argocd'', nnName = ''argocd''\<rparr>, None),
                  (0, GetCall KRoute \<lparr>nnNamespace = ''argocd'', nnName = ''argocd-server''\<rparr>,
                   Some forbidden)]"
    and res: "fst (fst ?run) = emptyResult"
    by (simp_all add: Reconcile_def clientGet_def scriptedClient_def exampleReconciler_def
          exampleRequest_def initWorld_def exampleArgoCD_def emptyArgoCD_def emptyRoute_def
          emptyMeta_def SetControllerReference_def forbidden_def argocdNS_def argocdRouteName_def
          logCall_def)
  have rd: "(0, GetCall KRoute \<lparr>nnNamespace = ''argocd'', nnName = ''argocd-server''\<rparr>, Some forbidden)
              \<in> set (drop (length (calls (initWorld [Inr exampleArgoCD, Inl forbidden])))
                       (calls (snd ?run)))"
    unfolding calls by (simp add: initWorld_def)
  have nf: "\<not> IsNotFound (Some forbidden)"
    by (simp add: forbidden_def)
  have w0: "writes (initWorld [Inr exampleArgoCD, Inl forbidden]) = []"
    by (simp add: writes_def initWorld_def)
  from Reconcile_read_error_no_write [OF run rd nf] res w0 show ?thesis
    by (simp add: prod_eq_iff)
qed

theorem filterPredicate_update_witness:
  "\<not> UpdateFunc (filterPredicate assertArgoCD)
       \<lparr>MetaOld = \<lparr>Name = ''argocd'', Namespace = ''argocd'', ResourceVersion = ''41''\<rparr>,
        MetaNew = \<lparr>Name = ''argocd'', Namespace = ''argocd'', ResourceVersion = ''41''\<rparr>\<rparr>
   \<and> UpdateFunc (filterPredicate assertArgoCD)
       \<lparr>MetaOld = \<lparr>Name = ''argocd'', Namespace = ''argocd'', ResourceVersion = ''41''\<rparr>,
        MetaNew = \<lparr>Name = ''argocd'', Namespace = ''argocd'', ResourceVersion = ''42''\<rparr>\<rparr>
   \<and> UpdateFunc (filterPredicate assertArgoCDRoute)
       \<lparr>MetaOld = \<lparr>Name = ''argocd-server'', Namespace = ''argocd'', ResourceVersion = ''41''\<rparr>,
        MetaNew = \<lparr>Name = ''argocd-server'', Namespace = ''argocd'', ResourceVersion = ''42''\<rparr>\<rparr>"
  using filterPredicate_update
          [of "\<lparr>MetaOld = \<lparr>Name = ''argocd'', Namespace = ''argocd'', ResourceVersion = ''41''\<rparr>,
               MetaNew = \<lparr>Name = ''argocd'', Namespace = ''argocd'', ResourceVersion = ''41''\<rparr>\<rparr>"
              assertArgoCD]
        filterPredicate_update
          [of "\<lparr>MetaOld = \<lparr>Name = ''argocd'', Namespace = ''argocd'', ResourceVersion = ''41''\<rparr>,
               MetaNew = \<lparr>Name = ''argocd'', Namespace = ''argocd'', ResourceVersion = ''42''\<rparr>\<rparr>"
              assertArgoCD]
        filterPredicate_update
          [of "\<lparr>MetaOld = \<lparr>Name = ''argocd-server'', Namespace = ''argocd'', ResourceVersion = ''41''\<rparr>,
               MetaNew = \<lparr>Name = ''argocd-server'', Namespace = ''argocd'', ResourceVersion = ''42''\<rparr>\<rparr>"
              assertArgoCDRoute]
  by (simp add: assertArgoCD_def argocdNS_def argocdInstanceName_def)

subsection \<open>The dependency installer\<close>

lemma WaitFor_pollAttempts:
  assumes "0 < interval" and "j < N"
  shows "WaitFor interval (N * interval) fn (j * interval) w
           = Some (pollAttempts fn interval (N - Suc j) (sleep interval w))"
  using assms(2)
proof (induction "N - Suc j" arbitrary: j w)
  case 0
  then have N: "N = Suc j" by simp
  with assms(1) show ?case
    by (subst WaitFor.simps) (simp split: prod.splits)
next
  case (Suc k)
  then have lt: "Suc j < N" and k: "k = N - Suc (Suc j)" by simp_all
  from lt assms(1) have nolast: "\<not> N * interval \<le> j * interval + interval"
    by (metis mult_Suc not_less add.commute mult_less_cancel2)
  have step: "WaitFor interval (N * interval) fn (Suc j * interval) w1
                = Some (pollAttempts fn interval k (sleep interval w1))" for w1
    using Suc.hyps(1) [OF k lt] k by simp
  from Suc.hyps(2) have Nj: "N - Suc j = Suc k" by simp
  show ?case
    apply (subst WaitFor.simps)
    using assms(1) nolast step
    by (simp add: Nj add.commute split: prod.splits)
qed

lemma PollImmediate_pollAttempts:
  assumes "0 < interval" and "0 < N"
  shows "PollImmediate interval (N * interval) fn w = Some (pollAttempts fn interval N w)"
proof -
  from assms(2) obtain n where N: "N = Suc n" by (cases N) auto
  from WaitFor_pollAttempts [OF assms(1), of 0 N fn] assms(2)
  have "WaitFor interval (N * interval) fn 0 w1
          = Some (pollAttempts fn interval n (sleep interval w1))" for w1
    by (simp add: N)
  then show ?thesis
    by (simp add: PollImmediate_def N split: prod.splits)
qed

lemma waitForOperator_pollAttempts:
  "waitForOperator c ns waitFunc w
     = Some (pollAttempts (case waitFunc of None \<Rightarrow> isOperatorReady c ns | Some f \<Rightarrow> f) Second 60 w)"
  using PollImmediate_pollAttempts [of Second 60]
  by (simp add: waitForOperator_def Minute_def Second_def)


lemma sleep_simps [simp]:
  "cluster (sleep d w) = cluster w" "clock (sleep d w) = clock w + d" "calls (sleep d w) = calls w"
  by (simp_all add: sleep_def)

lemma isOperatorReady_classify:
  assumes "Get c KClusterServiceVersion ns (cluster w) = (a, s)"
  shows "\<exists>err. isOperatorReady c ns w =
           ((spec_classify a = Ready, case spec_classify a of Fail e \<Rightarrow> Some e | _ \<Rightarrow> None),
            logCall (GetCall KClusterServiceVersion ns) err s w)"
proof (cases a)
  case (Inl e)
  with assms show ?thesis
    by (cases e)
       (auto simp: isOperatorReady_def clientGet_def emptyClusterServiceVersion_def
          CSVPhaseFailed_def CSVPhaseSucceeded_def)
next
  case (Inr obj)
  with assms show ?thesis
    by (cases obj)
       (auto simp: isOperatorReady_def clientGet_def emptyClusterServiceVersion_def
          CSVPhaseFailed_def CSVPhaseSucceeded_def kindMismatch_def)
qed

lemma pollAttempts_isOperatorReady:
  "\<exists>w' es. pollAttempts (isOperatorReady c ns) i n w
              = (spec_poll (map spec_classify
                   (readAnswers c KClusterServiceVersion ns (cluster w) (Suc n))), w')
     \<and> calls w' = calls w @ es
     \<and> map (\<lambda>e. (fst e, fst (snd e))) es
         = map (\<lambda>k. (clock w + k * i, GetCall KClusterServiceVersion ns))
             [0 ..< spec_reads (map spec_classify
                      (readAnswers c KClusterServiceVersion ns (cluster w) (Suc n)))]
     \<and> clock w' + i
         = clock w + i * spec_reads (map spec_classify
                      (readAnswers c KClusterServiceVersion ns (cluster w) (Suc n)))"
proof (induction n arbitrary: w)
  case 0
  obtain a s where g: "Get c KClusterServiceVersion ns (cluster w) = (a, s)"
    by (cases "Get c KClusterServiceVersion ns (cluster w)")
  from isOperatorReady_classify [OF g] obtain err where
    "isOperatorReady c ns w =
       ((spec_classify a = Ready, case spec_classify a of Fail e \<Rightarrow> Some e | _ \<Rightarrow> None),
        logCall (GetCall KClusterServiceVersion ns) err s w)" ..
  with g show ?case
    by (cases "spec_classify a") auto
next
  case (Suc n)
  obtain a s where g: "Get c KClusterServiceVersion ns (cluster w) = (a, s)"
    by (cases "Get c KClusterServiceVersion ns (cluster w)")
  from isOperatorReady_classify [OF g] obtain err where r:
    "isOperatorReady c ns w =
       ((spec_classify a = Ready, case spec_classify a of Fail e \<Rightarrow> Some e | _ \<Rightarrow> None),
        logCall (GetCall KClusterServiceVersion ns) err s w)" ..
  let ?once = "sleep i (logCall (GetCall KClusterServiceVersion ns) err s w)"
  let ?vs = "map spec_classify (readAnswers c KClusterServiceVersion ns s (Suc n))"
  show ?case
  proof (cases "spec_classify a")
    case KeepPolling
    from Suc.IH [of ?once] obtain w' es where
      run: "pollAttempts (isOperatorReady c ns) i n ?once = (spec_poll ?vs, w')"
      and cs: "calls w' = calls ?once @ es"
      and ts: "map (\<lambda>e. (fst e, fst (snd e))) es
                 = map (\<lambda>k. (clock ?once + k * i, GetCall KClusterServiceVersion ns))
                     [0 ..< spec_reads ?vs]"
      and ck: "clock w' + i = clock ?once + i * spec_reads ?vs"
      by auto
    have shift: "map (\<lambda>k. (clock w + k * i, GetCall KClusterServiceVersion ns))
                   [0 ..< Suc (spec_reads ?vs)]
                 = (clock w, GetCall KClusterServiceVersion ns)
                   # map (\<lambda>k. (clock ?once + k * i, GetCall KClusterServiceVersion ns))
                       [0 ..< spec_reads ?vs]"
      by (simp add: upt_rec [of 0] map_Suc_upt [symmetric] add.assoc add.commute del: upt_Suc)
    from KeepPolling g r run cs ts ck shift show ?thesis
      by (simp del: upt_Suc readAnswers.simps(2) add: readAnswers.simps(2) [of c _ ns "cluster w"])
  next
    case Ready
    with g r show ?thesis by auto
  next
    case (Fail e)
    with g r show ?thesis by auto
  qed
qed


lemma length_readAnswers [simp]: "length (readAnswers c k key s n) = n"
  by (induction n arbitrary: s) (auto split: prod.splits)

lemma spec_reads_le: "spec_reads vs \<le> length vs"
  by (induction vs rule: spec_reads.induct) auto

lemma spec_all_KeepPolling:
  "\<forall>v \<in> set vs. v = KeepPolling \<Longrightarrow> spec_reads vs = length vs \<and> spec_poll vs = Some ErrWaitTimeout"
  by (induction vs rule: spec_reads.induct) auto

lemma spec_run_append:
  "spec_run (xs @ ys) w =
     (case spec_run xs w of
        None \<Rightarrow> None
      | Some (err, w1) \<Rightarrow> if err \<noteq> None then Some (err, w1) else spec_run ys w1)"
  by (induction xs arbitrary: w) (auto split: option.splits)

lemma installLoop_spec_run:
  "installLoop d ops w = spec_run (concat (map (spec_steps d) ops)) w"
proof (induction ops arbitrary: w)
  case Nil
  show ?case by simp
next
  case (Cons op ops)
  show ?case
    by (simp add: Cons.IH spec_steps_def GetNamespace_def GetOperatorGroup_def GetSubscription_def
          newNamespace_def newOperatorGroup_def newSubscription_def
          split: prod.splits option.splits)
qed

lemma installLoop_total: "\<exists>r. installLoop d ops w = Some r"
  by (induction ops arbitrary: w)
     (auto simp: waitForOperator_pollAttempts split: prod.splits)

text \<open>
  \<^bold>\<open>C6.\<close>  \<open>Install\<close> runs, for each descriptor in list order, the four steps
  namespace, operator group, subscription, readiness poll, in that order, and stops
  at the first step that returns an error: the loop of the code is \<open>spec_run\<close> of
  the steps of all descriptors laid end to end.  In particular, when the descriptors
  before \<open>op\<close> have been installed, the first \<open>k\<close> steps of \<open>op\<close> succeed and step \<open>k\<close>
  fails with \<open>e\<close>, the result is \<open>e\<close> in the world that step left: no call is made
  for a later step or a later descriptor.  \<open>Install\<close> always returns.
\<close>
theorem Install_in_order:
  "installLoop d ops w = spec_run (concat (map (spec_steps d) ops)) w
   \<and> Install d w =
       spec_run (spec_steps d (newSealedSecretsOperator (d_prefix d))
                 @ spec_steps d (newArgoCDOperator (d_prefix d))) w
   \<and> (installLoop d pre w = Some (None, w1)
        \<and> k < 4
        \<and> spec_run (take k (spec_steps d op)) w1 = Some (None, w2)
        \<and> (spec_steps d op ! k) w2 = Some (Some e, w3)
      \<longrightarrow> installLoop d (pre @ op # post) w = Some (Some e, w3))
   \<and> Install d w \<noteq> None"
proof -
  have len: "length (spec_steps d op) = 4"
    by (simp add: spec_steps_def)
  have "installLoop d (pre @ op # post) w = Some (Some e, w3)"
    if pre: "installLoop d pre w = Some (None, w1)" and k: "k < 4"
      and before: "spec_run (take k (spec_steps d op)) w1 = Some (None, w2)"
      and failing: "(spec_steps d op ! k) w2 = Some (Some e, w3)"
  proof -
    from k len have split: "spec_steps d op
        = take k (spec_steps d op) @ (spec_steps d op ! k) # drop (Suc k) (spec_steps d op)"
      by (simp add: id_take_nth_drop)
    have "spec_run (spec_steps d op) w1 = Some (Some e, w3)"
      by (subst split) (simp add: spec_run_append before failing)
    with pre show ?thesis
      by (simp add: installLoop_spec_run spec_run_append)
  qed
  moreover have "Install d w \<noteq> None"
  proof -
    from installLoop_total obtain r where
      "installLoop d [newSealedSecretsOperator (d_prefix d), newArgoCDOperator (d_prefix d)] w
         = Some r" by blast
    then show ?thesis by (simp only: Install_def option.distinct not_False_eq_True)
  qed
  ultimately show ?thesis
    by (simp add: installLoop_spec_run Install_def)
qed

text \<open>
  \<^bold>\<open>C2.\<close>  The readiness poll of the code (no custom condition) returns what the
  specification's classification gives on the answers of its successive reads, at
  most 61 of them: NotFound and non-terminal phases keep polling, Succeeded ends
  the poll with success, Failed ends it with the error that embeds the reported
  reason, any other read error ends it with that error.  It makes exactly the reads
  up to the first deciding one and no other call.  In \<open>Install\<close>, after the three
  create steps of a descriptor, an error of the poll is the result of the whole
  install and success moves on to the next descriptor.
\<close>
theorem waitForOperator_classifies_reads:
  "\<exists>w'. waitForOperator (d_client d) \<lparr>nnNamespace = namespace op, nnName = csv op\<rparr> None w
            = Some (spec_poll (map spec_classify
                      (readAnswers (d_client d) KClusterServiceVersion
                         \<lparr>nnNamespace = namespace op, nnName = csv op\<rparr> (cluster w) 61)), w')
      \<and> map (\<lambda>e. fst (snd e)) (drop (length (calls w)) (calls w'))
          = replicate
              (spec_reads (map spec_classify
                 (readAnswers (d_client d) KClusterServiceVersion
                    \<lparr>nnNamespace = namespace op, nnName = csv op\<rparr> (cluster w) 61)))
              (GetCall KClusterServiceVersion \<lparr>nnNamespace = namespace op, nnName = csv op\<rparr>)
      \<and> (d_isReady d = None
           \<and> spec_run (butlast (spec_steps d op)) w0 = Some (None, w)
         \<longrightarrow> installLoop d (op # rest) w0 =
               (case spec_poll (map spec_classify
                       (readAnswers (d_client d) KClusterServiceVersion
                          \<lparr>nnNamespace = namespace op, nnName = csv op\<rparr> (cluster w) 61)) of
                  None \<Rightarrow> installLoop d rest w'
                | Some e \<Rightarrow> Some (Some e, w')))"
proof -
  let ?key = "\<lparr>nnNamespace = namespace op, nnName = csv op\<rparr>"
  let ?vs = "map spec_classify (readAnswers (d_client d) KClusterServiceVersion ?key (cluster w) 61)"
  from pollAttempts_isOperatorReady [of "d_client d" ?key Second 60 w]
  obtain w' es where
    run: "pollAttempts (isOperatorReady (d_client d) ?key) Second 60 w = (spec_poll ?vs, w')"
    and cs: "calls w' = calls w @ es"
    and ts: "map (\<lambda>e. (fst e, fst (snd e))) es
               = map (\<lambda>k. (clock w + k * Second, GetCall KClusterServiceVersion ?key))
                   [0 ..< spec_reads ?vs]"
    by auto
  have wait: "waitForOperator (d_client d) ?key None w = Some (spec_poll ?vs, w')"
    by (simp add: waitForOperator_pollAttempts run)
  from ts have "map snd (map (\<lambda>e. (fst e, fst (snd e))) es)
                  = map snd (map (\<lambda>k. (clock w + k * Second, GetCall KClusterServiceVersion ?key))
                      [0 ..< spec_reads ?vs])"
    by simp
  then have log: "map (\<lambda>e. fst (snd e)) es
                    = replicate (spec_reads ?vs) (GetCall KClusterServiceVersion ?key)"
    by (simp add: comp_def map_replicate_const del: upt_Suc)
  have steps: "spec_steps d op = butlast (spec_steps d op)
                 @ [waitForOperator (d_client d) ?key (d_isReady d)]"
    by (simp add: spec_steps_def)
  have inst: "installLoop d (op # rest) w0 =
               (case spec_poll ?vs of None \<Rightarrow> installLoop d rest w' | Some e \<Rightarrow> Some (Some e, w'))"
    if "d_isReady d = None" and "spec_run (butlast (spec_steps d op)) w0 = Some (None, w)"
  proof -
    have "installLoop d (op # rest) w0
            = spec_run (spec_steps d op @ concat (map (spec_steps d) rest)) w0"
      by (simp add: installLoop_spec_run)
    also have "\<dots> = (case spec_poll ?vs of None \<Rightarrow> installLoop d rest w'
                      | Some e \<Rightarrow> Some (Some e, w'))"
      by (subst steps) (simp add: spec_run_append that wait installLoop_spec_run split: option.splits)
    finally show ?thesis .
  qed
  from wait log inst cs show ?thesis by auto
qed

text \<open>
  \<^bold>\<open>C7.\<close>  The readiness wait reads the ClusterServiceVersion at the start of the
  poll and then every \<open>Second\<close>, at most 61 times, and never later than one \<open>Minute\<close>
  (60 seconds) after the start.  If none of these reads reaches a terminal phase or
  fails, the wait returns \<open>ErrWaitTimeout\<close> one minute after the start, having read
  61 times.  (Time is the logical clock of the world.)
\<close>
theorem waitForOperator_deadline:
  "\<exists>r w' n. waitForOperator c ns None w = Some (r, w')
      \<and> Minute = 60 * Second
      \<and> n \<le> 61
      \<and> map (\<lambda>e. (fst e, fst (snd e))) (drop (length (calls w)) (calls w'))
          = map (\<lambda>k. (clock w + k * Second, GetCall KClusterServiceVersion ns)) [0 ..< n]
      \<and> clock w' \<le> clock w + 1 * Minute
      \<and> ((\<forall>a \<in> set (readAnswers c KClusterServiceVersion ns (cluster w) 61).
             spec_classify a = KeepPolling)
         \<longrightarrow> r = Some ErrWaitTimeout \<and> n = 61 \<and> clock w' = clock w + 1 * Minute)"
proof -
  let ?vs = "map spec_classify (readAnswers c KClusterServiceVersion ns (cluster w) 61)"
  from pollAttempts_isOperatorReady [of c ns Second 60 w]
  obtain w' es where
    run: "pollAttempts (isOperatorReady c ns) Second 60 w = (spec_poll ?vs, w')"
    and cs: "calls w' = calls w @ es"
    and ts: "map (\<lambda>e. (fst e, fst (snd e))) es
               = map (\<lambda>k. (clock w + k * Second, GetCall KClusterServiceVersion ns))
                   [0 ..< spec_reads ?vs]"
    and ck: "clock w' + Second = clock w + Second * spec_reads ?vs"
    by auto
  have wait: "waitForOperator c ns None w = Some (spec_poll ?vs, w')"
    by (simp add: waitForOperator_pollAttempts run)
  from spec_reads_le [of ?vs] have le: "spec_reads ?vs \<le> 61" by simp
  then have "Second * spec_reads ?vs \<le> Second * 61" by (rule mult_le_mono2)
  with ck have bound: "clock w' \<le> clock w + 1 * Minute"
    unfolding Minute_def by arith
  have timeout: "spec_poll ?vs = Some ErrWaitTimeout \<and> spec_reads ?vs = 61
                   \<and> clock w' = clock w + 1 * Minute"
    if "\<forall>a \<in> set (readAnswers c KClusterServiceVersion ns (cluster w) 61).
          spec_classify a = KeepPolling"
  proof -
    from that have "\<forall>v \<in> set ?vs. v = KeepPolling" by simp
    from spec_all_KeepPolling [OF this] have "spec_poll ?vs = Some ErrWaitTimeout"
      and n: "spec_reads ?vs = 61" by simp_all
    moreover from ck have "clock w' + Second = clock w + Second * 61"
      by (simp only: n)
    then have "clock w' = clock w + 1 * Minute"
      unfolding Minute_def by arith
    ultimately show ?thesis by simp
  qed
  show ?thesis
    apply (rule exI [of _ "spec_poll ?vs"])
    apply (rule exI [of _ w'])
    apply (rule exI [of _ "spec_reads ?vs"])
    using wait le ts bound timeout cs
    by (simp add: Minute_def del: upt_Suc)
qed


text \<open>
  \<^bold>\<open>C8.\<close>  On a cluster where the resource is present (the read finds it and does
  not change the cluster), create-if-absent returns no error and makes no write,
  and so does a second call: the second call adds one read to the log, and the
  cluster after two calls is the cluster after one, which is the cluster before.
\<close>
theorem createResourceIfAbsent_present_idempotent:
  assumes "Get (d_client d) (kindOf obj) ns (cluster w) = (Inr found, cluster w)"
    and "kindOf found = kindOf obj"
    and "w1 = snd (createResourceIfAbsent d obj ns w)"
    and "w2 = snd (createResourceIfAbsent d obj ns w1)"
  shows "fst (createResourceIfAbsent d obj ns w) = None
       \<and> fst (createResourceIfAbsent d obj ns w1) = None
       \<and> calls w2 = calls w1 @ [(clock w1, GetCall (kindOf obj) ns, None)]
       \<and> writes w2 = writes w1 \<and> writes w1 = writes w
       \<and> cluster w2 = cluster w1 \<and> cluster w1 = cluster w"
proof -
  have one: "createResourceIfAbsent d obj ns v
               = (None, logCall (GetCall (kindOf obj) ns) None (cluster w) v)"
    if "cluster v = cluster w" for v
    using assms(1,2) that by (simp add: createResourceIfAbsent_def clientGet_def)
  from one [of w] assms(3) have w1: "w1 = logCall (GetCall (kindOf obj) ns) None (cluster w) w"
    by simp
  then have "cluster w1 = cluster w" by simp
  from one [OF this] assms(4) have w2: "w2 = logCall (GetCall (kindOf obj) ns) None (cluster w) w1"
    by simp
  from one [of w] one [of w1] w1 w2 show ?thesis
    by (simp add: writes_def)
qed

lemmas install_defs =
  createResourceIfAbsent_def clientGet_def clientCreate_def logCall_def initWorld_def
  scriptedClient_def NewClient_def newSealedSecretsOperator_def newArgoCDOperator_def
  addPrefixIfNecessary_def newNamespace_def newOperatorGroup_def newSubscription_def
  notFound_def forbidden_def

theorem waitForOperator_classifies_reads_witness:
  "\<exists>w'. installLoop (NewClient (scriptedClient None) []) [newSealedSecretsOperator []]
            (initWorld [Inl notFound, Inl notFound, Inl notFound,
                        Inl notFound, Inr installingCSV, Inr failedCSV])
          = Some (Some (Errorf ''Operator installation failed: InstallCheckFailed''), w')
        \<and> length (calls w') = 9"
proof -
  let ?d = "NewClient (scriptedClient None) [] :: ((error + object) list) Dependency"
  let ?op = "newSealedSecretsOperator []"
  let ?start = "initWorld [Inl notFound, Inl notFound, Inl notFound,
                        Inl notFound, Inr installingCSV, Inr failedCSV]"
  let ?w = "\<lparr>cluster = [Inl notFound, Inr installingCSV, Inr failedCSV], clock = 0,
             calls = [(0, GetCall KNamespace \<lparr>nnNamespace = [], nnName = ''cicd''\<rparr>, Some notFound),
                      (0, CreateCall (newNamespace ''cicd''), None),
                      (0, GetCall KOperatorGroup
                            \<lparr>nnNamespace = ''cicd'', nnName = ''sealed-secrets-operator-group''\<rparr>,
                       Some notFound),
                      (0, CreateCall (newOperatorGroup ''cicd'' ''sealed-secrets-operator-group''), None),
                      (0, GetCall KSubscription
                            \<lparr>nnNamespace = ''cicd'', nnName = ''sealed-secrets-operator-helm''\<rparr>,
                       Some notFound),
                      (0, CreateCall (newSubscription ''cicd'' ''sealed-secrets-operator-helm''), None)]\<rparr>"
  have ready: "d_isReady ?d = None"
    by (simp add: NewClient_def)
  have creates: "spec_run (butlast (spec_steps ?d ?op)) ?start = Some (None, ?w)"
    by (simp add: spec_steps_def install_defs)
  have verdicts: "map spec_classify
                    (readAnswers (d_client ?d) KClusterServiceVersion
                       \<lparr>nnNamespace = namespace ?op, nnName = csv ?op\<rparr> (cluster ?w) 61)
                  = KeepPolling # KeepPolling
                    # Fail (Errorf ''Operator installation failed: InstallCheckFailed'')
                    # replicate 58 KeepPolling"
    by (simp add: eval_nat_numeral install_defs installingCSV_def failedCSV_def)
  from waitForOperator_classifies_reads [of ?d ?op ?w ?start "[]"] ready creates
  obtain w' where
    log: "map (\<lambda>e. fst (snd e)) (drop (length (calls ?w)) (calls w'))
            = replicate
                (spec_reads (map spec_classify
                   (readAnswers (d_client ?d) KClusterServiceVersion
                      \<lparr>nnNamespace = namespace ?op, nnName = csv ?op\<rparr> (cluster ?w) 61)))
                (GetCall KClusterServiceVersion \<lparr>nnNamespace = namespace ?op, nnName = csv ?op\<rparr>)"
    and inst: "installLoop ?d [?op] ?start =
                 (case spec_poll (map spec_classify
                         (readAnswers (d_client ?d) KClusterServiceVersion
                            \<lparr>nnNamespace = namespace ?op, nnName = csv ?op\<rparr> (cluster ?w) 61)) of
                    None \<Rightarrow> installLoop ?d [] w'
                  | Some e \<Rightarrow> Some (Some e, w'))"
    by blast
  from log have "length (map (\<lambda>e. fst (snd e)) (drop (length (calls ?w)) (calls w')))
                  = length (replicate
                      (spec_reads (map spec_classify
                         (readAnswers (d_client ?d) KClusterServiceVersion
                            \<lparr>nnNamespace = namespace ?op, nnName = csv ?op\<rparr> (cluster ?w) 61)))
                      (GetCall KClusterServiceVersion
                         \<lparr>nnNamespace = namespace ?op, nnName = csv ?op\<rparr>))"
    by (rule arg_cong)
  then have "length (drop (length (calls ?w)) (calls w')) = 3"
    unfolding verdicts by simp
  then have "length (calls w') = 9" by simp
  moreover from inst have "installLoop ?d [?op] ?start
      = Some (Some (Errorf ''Operator installation failed: InstallCheckFailed''), w')"
    unfolding verdicts by simp
  ultimately show ?thesis by blast
qed

theorem waitForOperator_deadline_witness:
  "\<exists>w'. waitForOperator (scriptedClient None)
            \<lparr>nnNamespace = ''cicd'', nnName = ''sealed-secrets-operator-helm.v0.0.2''\<rparr> None
            (initWorld [])
          = Some (Some ErrWaitTimeout, w')
        \<and> clock w' = 60000000000
        \<and> map (\<lambda>e. (fst e, fst (snd e))) (calls w')
            = map (\<lambda>k. (k * 1000000000,
                         GetCall KClusterServiceVersion
                           \<lparr>nnNamespace = ''cicd'',
                            nnName = ''sealed-secrets-operator-helm.v0.0.2''\<rparr>))
                [0 ..< 61]"
proof -
  let ?key = "\<lparr>nnNamespace = ''cicd'', nnName = ''sealed-secrets-operator-helm.v0.0.2''\<rparr>"
  let ?c = "scriptedClient None :: ((error + object) list) Client"
  have never: "\<forall>a \<in> set (readAnswers ?c KClusterServiceVersion ?key (cluster (initWorld [])) 61).
                 spec_classify a = KeepPolling"
    by (simp add: eval_nat_numeral scriptedClient_def initWorld_def notFound_def)
  have start: "clock (initWorld [] :: ((error + object) list) world) = 0"
    "calls (initWorld [] :: ((error + object) list) world) = []"
    by (simp_all add: initWorld_def)
  from waitForOperator_deadline [of ?c ?key "initWorld []"] never
  have "\<exists>r w' n. waitForOperator ?c ?key None (initWorld []) = Some (r, w')
          \<and> map (\<lambda>e. (fst e, fst (snd e))) (drop (length (calls (initWorld []
                  :: ((error + object) list) world))) (calls w'))
              = map (\<lambda>k. (clock (initWorld [] :: ((error + object) list) world) + k * Second,
                           GetCall KClusterServiceVersion ?key)) [0 ..< n]
          \<and> r = Some ErrWaitTimeout \<and> n = 61
          \<and> clock w' = clock (initWorld [] :: ((error + object) list) world) + 1 * Minute"
    by blast
  then show ?thesis
    unfolding start by (auto simp: Minute_def Second_def simp del: upt_Suc)
qed

theorem Install_in_order_witness:
  "Install (NewClient (scriptedClient None) []) (initWorld [Inl notFound, Inl forbidden])
   = Some (Some forbidden,
           \<lparr>cluster = [], clock = 0,
            calls = [(0, GetCall KNamespace \<lparr>nnNamespace = [], nnName = ''cicd''\<rparr>, Some notFound),
                     (0, CreateCall (newNamespace ''cicd''), None),
                     (0, GetCall KOperatorGroup
                           \<lparr>nnNamespace = ''cicd'', nnName = ''sealed-secrets-operator-group''\<rparr>,
                      Some forbidden)]\<rparr>)"
proof -
  let ?d = "NewClient (scriptedClient None) [] :: ((error + object) list) Dependency"
  let ?op = "newSealedSecretsOperator []"
  let ?start = "initWorld [Inl notFound, Inl forbidden]"
  let ?mid = "\<lparr>cluster = [Inl forbidden], clock = 0,
              calls = [(0, GetCall KNamespace \<lparr>nnNamespace = [], nnName = ''cicd''\<rparr>, Some notFound),
                       (0, CreateCall (newNamespace ''cicd''), None)]\<rparr>"
  let ?final = "\<lparr>cluster = [], clock = 0,
              calls = [(0, GetCall KNamespace \<lparr>nnNamespace = [], nnName = ''cicd''\<rparr>, Some notFound),
                       (0, CreateCall (newNamespace ''cicd''), None),
                       (0, GetCall KOperatorGroup
                             \<lparr>nnNamespace = ''cicd'', nnName = ''sealed-secrets-operator-group''\<rparr>,
                        Some forbidden)]\<rparr>"
  have pre: "installLoop ?d [] ?start = Some (None, ?start)"
    by simp
  have k: "(1::nat) < 4"
    by simp
  have before: "spec_run (take 1 (spec_steps ?d ?op)) ?start = Some (None, ?mid)"
    by (simp add: spec_steps_def install_defs)
  have failing: "(spec_steps ?d ?op ! 1) ?mid = Some (Some forbidden, ?final)"
    by (simp add: spec_steps_def install_defs)
  from Install_in_order [of ?d "[]" ?start "[]" ?start 1 ?op ?mid forbidden ?final "[newArgoCDOperator []]"]
       pre k before failing
  have "installLoop ?d ([] @ ?op # [newArgoCDOperator []]) ?start = Some (Some forbidden, ?final)"
    by blast
  then show ?thesis
    by (simp only: Install_def NewClient_def Dependency.simps append_Nil)
qed

theorem createResourceIfAbsent_present_idempotent_witness:
  "createResourceIfAbsent (NewClient fakeClient []) (newNamespace ''cicd'')
     \<lparr>nnNamespace = [], nnName = ''cicd''\<rparr>
     (snd (createResourceIfAbsent (NewClient fakeClient []) (newNamespace ''cicd'')
             \<lparr>nnNamespace = [], nnName = ''cicd''\<rparr> (initWorld (storeOf [newNamespace ''cicd'']))))
   = (None,
      \<lparr>cluster = storeOf [newNamespace ''cicd''], clock = 0,
       calls = [(0, GetCall KNamespace \<lparr>nnNamespace = [], nnName = ''cicd''\<rparr>, None),
                (0, GetCall KNamespace \<lparr>nnNamespace = [], nnName = ''cicd''\<rparr>, None)]\<rparr>)"
proof -
  let ?d = "NewClient fakeClient []"
  let ?key = "\<lparr>nnNamespace = [], nnName = ''cicd''\<rparr>"
  let ?w = "initWorld (storeOf [newNamespace ''cicd''])"
  let ?once = "snd (createResourceIfAbsent ?d (newNamespace ''cicd'') ?key ?w)"
  let ?mid = "snd (createResourceIfAbsent ?d (newNamespace ''cicd'') ?key ?once)"
  have present: "Get (d_client ?d) (kindOf (newNamespace ''cicd'')) ?key (cluster ?w)
                   = (Inr (newNamespace ''cicd''), cluster ?w)"
    by (simp add: NewClient_def fakeClient_def storeOf_def objKey_def newNamespace_def
          initWorld_def)
  from createResourceIfAbsent_present_idempotent [OF present refl refl refl]
  have "fst (createResourceIfAbsent ?d (newNamespace ''cicd'') ?key ?w) = None"
    and "fst (createResourceIfAbsent ?d (newNamespace ''cicd'') ?key ?once) = None"
    and "calls ?mid = calls ?once @ [(clock ?once, GetCall (kindOf (newNamespace ''cicd'')) ?key, None)]"
    and "cluster ?mid = cluster ?once" and "cluster ?once = cluster ?w"
    by simp_all
  moreover have "calls ?once = [(0, GetCall KNamespace ?key, None)]" and "clock ?once = 0"
    and "clock ?mid = 0"
    by (simp_all add: createResourceIfAbsent_def clientGet_def NewClient_def fakeClient_def
          storeOf_def objKey_def newNamespace_def initWorld_def logCall_def)
  ultimately show ?thesis
    by (simp add: prod_eq_iff world.equality initWorld_def newNamespace_def)
qed

end
